theory Spec2Isabelle
  imports Main "HOL-Library.Sublist"
begin

section \<open>Python values, exceptions and the interpreter's renderings\<close>

text \<open>
  The program is dynamically typed: the web handler hands whatever \<open>request.get_json()\<close>
  parsed to \<open>generate_prompt\<close>. Values are therefore modelled as one datatype of the Python
  values a JSON document decodes to. A finite float is the pair of its mantissa and binary
  exponent (\<open>m * 2 ^ e\<close>); it is zero exactly when the mantissa is. A dict keeps its items
  in insertion order; its keys are strings.
\<close>

datatype pyval =
    PyNone
  | PyBool bool
  | PyInt int
  | PyFloat int int
  | PyStr string
  | PyList "pyval list"
  | PyDict "(string \<times> pyval) list"

text \<open>
  Every exception of the model derives from Python's \<open>Exception\<close>, so \<open>except Exception\<close>
  catches it. \<open>Raised m\<close> is an exception raised by code outside the repository (the provider
  client, the JSON parser, the client's constructor) or by an explicit \<open>raise\<close>, with
  \<open>str(e) = m\<close>. The others are the interpreter's own: a \<open>TypeError\<close> for an unhashable dict
  key, for \<open>in\<close> on a value that is no container, for a subscript the value does not support,
  for \<open>+\<close> on operands that do not support it, a \<open>KeyError\<close> for a missing dict key, and
  an \<open>AttributeError\<close> for a missing attribute of an object of the named class.
\<close>

datatype exn =
    Raised string
  | Unhashable pyval
  | NotIterable pyval
  | BadSubscript pyval
  | UnsupportedOperand pyval pyval
  | KeyError string
  | NoAttribute string string

text \<open>
  Two renderings belong to the interpreter and not to the repository: \<open>str(v)\<close> of a value
  that is not a string (what an f-string inserts), and the wording of the interpreter's own
  error messages, which changes between Python versions. Both are parameters of the model.
\<close>

record python =
  str_of :: "pyval \<Rightarrow> string"
  message_of :: "exn \<Rightarrow> string"

fun py_str :: "python \<Rightarrow> pyval \<Rightarrow> string" where
  "py_str I (PyStr s) = s"
| "py_str I v = str_of I v"

fun exn_str :: "python \<Rightarrow> exn \<Rightarrow> string" where
  "exn_str I (Raised m) = m"
| "exn_str I e = message_of I e"

fun truthy :: "pyval \<Rightarrow> bool" where
  "truthy PyNone = False"
| "truthy (PyBool b) = b"
| "truthy (PyInt n) = (n \<noteq> 0)"
| "truthy (PyFloat m e) = (m \<noteq> 0)"
| "truthy (PyStr s) = (s \<noteq> [])"
| "truthy (PyList xs) = (xs \<noteq> [])"
| "truthy (PyDict kvs) = (kvs \<noteq> [])"

fun hashable :: "pyval \<Rightarrow> bool" where
  "hashable (PyList xs) = False"
| "hashable (PyDict kvs) = False"
| "hashable v = True"

abbreviation (input) nl :: string where
  "nl \<equiv> [CHR 0x0A]"

text \<open>
  \<open>occs p i s\<close> lists the positions at which \<open>p\<close> occurs in \<open>s\<close>, counted from \<open>i\<close>;
  Python's \<open>p in s\<close> on strings is \<open>contains p s\<close>.
\<close>

fun occs :: "string \<Rightarrow> nat \<Rightarrow> string \<Rightarrow> nat list" where
  "occs p i [] = (if p = [] then [i] else [])"
| "occs p i (c # s) = (if prefix p (c # s) then [i] else []) @ occs p (Suc i) s"

definition contains :: "string \<Rightarrow> string \<Rightarrow> bool" where
  "contains p s = (occs p 0 s \<noteq> [])"

section \<open>prompt_generator.py\<close>

subsection \<open>Configuration, provider requests and responses\<close>

record PromptConfig =
  model :: string
  max_tokens :: int
  temperature :: pyval
  system_prompt :: "string option"

text \<open>The defaults of the dataclass; the float \<open>0.7\<close> is \<open>6305039478318694 * 2 ^ -53\<close>.\<close>

definition default_config :: PromptConfig where
  "default_config =
     \<lparr> model = ''claude-3-5-sonnet-20241022'', max_tokens = 2048,
       temperature = PyFloat 6305039478318694 (- 53), system_prompt = None \<rparr>"

text \<open>The keyword arguments of \<open>client.messages.create\<close>.\<close>

record api_request =
  req_model :: string
  req_max_tokens :: int
  req_temperature :: pyval
  req_system :: string
  req_messages :: "(string \<times> string) list list"

text \<open>
  The response is whatever object the provider's client returns. An attribute of it is
  missing (\<open>Absent\<close>: reading it raises \<open>AttributeError\<close>, \<open>hasattr\<close> is false), holds \<open>None\<close>
  (\<open>IsNone\<close>), or holds a value. A content block either has a \<open>text\<close> attribute, a string, or
  is an object of another class (named) that has none. The counters of a usage object are
  integers where they hold a value.
\<close>

datatype 'a attr = Absent | IsNone | Has 'a

datatype block = TextBlock string | OtherBlock string

record api_usage =
  input_tokens :: "int attr"
  output_tokens :: "int attr"

record api_response =
  content :: "block list attr"
  usage :: "api_usage attr"

text \<open>
  The provider is outside the program. It answers a request with a response or raises;
  its answer may depend on how many calls were made before. The calls made so far are the
  state that the operations thread through.
\<close>

type_synonym provider = "nat \<Rightarrow> api_request \<Rightarrow> exn + api_response"

record PromptGenerator =
  api_key :: string
  config :: PromptConfig
  client :: provider

subsection \<open>The template catalogue and the message composer\<close>

definition general_text :: string where
  "general_text =
     ''You are an expert prompt engineer. Your task is to create clear, effective, and well-structured prompts based on the user's requirements. '' @ nl
     @ nl
     @ ''Focus on:'' @ nl
     @ ''- Clarity and specificity'' @ nl
     @ ''- Proper structure and formatting'' @ nl
     @ ''- Including relevant context and constraints'' @ nl
     @ ''- Making the prompt actionable and results-oriented''"

definition creative_text :: string where
  "creative_text =
     ''You are a creative prompt specialist. Your task is to generate imaginative and inspiring prompts that encourage creative thinking and artistic expression.'' @ nl
     @ nl
     @ ''Focus on:'' @ nl
     @ ''- Vivid imagery and descriptive language'' @ nl
     @ ''- Emotional resonance and atmosphere'' @ nl
     @ ''- Creative constraints that spark innovation'' @ nl
     @ ''- Open-ended possibilities for exploration''"

definition technical_text :: string where
  "technical_text =
     ''You are a technical prompt engineer specializing in programming, development, and technical documentation prompts.'' @ nl
     @ nl
     @ ''Focus on:'' @ nl
     @ ''- Technical accuracy and precision'' @ nl
     @ ''- Clear specifications and requirements'' @ nl
     @ ''- Best practices and standards'' @ nl
     @ ''- Actionable technical instructions''"

definition image_text :: string where
  "image_text =
     ''You are an expert in creating prompts for AI image generation. Your task is to craft detailed, specific prompts that will produce high-quality visual results.'' @ nl
     @ nl
     @ ''Focus on:'' @ nl
     @ ''- Visual composition and style'' @ nl
     @ ''- Lighting, color, and atmosphere'' @ nl
     @ ''- Technical camera/art terminology'' @ nl
     @ ''- Specific details about subjects and scenes''"

definition base_prompts :: "(string \<times> string) list" where
  "base_prompts =
     [(''general'', general_text), (''creative'', creative_text),
      (''technical'', technical_text), (''image'', image_text)]"

text \<open>
  \<open>base_prompts.get(prompt_type, base_prompts["general"])\<close>: hashing a list or a dict
  raises; a key of any other type than \<open>str\<close> equals none of the four string keys.
\<close>

definition base_prompts_get :: "pyval \<Rightarrow> exn + string" where
  "base_prompts_get prompt_type =
     (if \<not> hashable prompt_type then Inl (Unhashable prompt_type)
      else case prompt_type of
             PyStr k \<Rightarrow>
               (case map_of base_prompts k of
                  Some t \<Rightarrow> Inr t
                | None \<Rightarrow> Inr general_text)
           | _ \<Rightarrow> Inr general_text)"

definition build_system_prompt :: "python \<Rightarrow> pyval \<Rightarrow> pyval \<Rightarrow> exn + string" where
  "build_system_prompt I prompt_type custom_instructions =
     (case base_prompts_get prompt_type of
        Inl e \<Rightarrow> Inl e
      | Inr system_prompt' \<Rightarrow>
          if truthy custom_instructions
          then Inr (system_prompt' @ nl @ nl @ ''Additional instructions: ''
                      @ py_str I custom_instructions)
          else Inr system_prompt')"

definition request_line :: "python \<Rightarrow> pyval \<Rightarrow> string" where
  "request_line I user_input =
     ''Please create a prompt based on this request: '' @ py_str I user_input"

definition build_user_message :: "python \<Rightarrow> pyval \<Rightarrow> pyval \<Rightarrow> string" where
  "build_user_message I user_input context =
     (let message = request_line I user_input
      in if truthy context
         then message @ nl @ nl @ ''Additional context: '' @ py_str I context
         else message)"

subsection \<open>Dict and container operations the front ends use\<close>

fun type_name :: "pyval \<Rightarrow> string" where
  "type_name PyNone = ''NoneType''"
| "type_name (PyBool b) = ''bool''"
| "type_name (PyInt n) = ''int''"
| "type_name (PyFloat m e) = ''float''"
| "type_name (PyStr s) = ''str''"
| "type_name (PyList xs) = ''list''"
| "type_name (PyDict kvs) = ''dict''"

text \<open>\<open>k in v\<close> for a string \<open>k\<close>: a key of a dict, an element of a list, a substring of a string.\<close>

fun py_in :: "string \<Rightarrow> pyval \<Rightarrow> exn + bool" where
  "py_in k (PyDict kvs) = Inr (map_of kvs k \<noteq> None)"
| "py_in k (PyList xs) = Inr (PyStr k \<in> set xs)"
| "py_in k (PyStr s) = Inr (contains k s)"
| "py_in k v = Inl (NotIterable v)"

text \<open>\<open>v[k]\<close> for a string \<open>k\<close>.\<close>

fun py_getitem :: "pyval \<Rightarrow> string \<Rightarrow> exn + pyval" where
  "py_getitem (PyDict kvs) k =
     (case map_of kvs k of Some v \<Rightarrow> Inr v | None \<Rightarrow> Inl (KeyError k))"
| "py_getitem v k = Inl (BadSubscript v)"

text \<open>\<open>v.get(k, d)\<close>.\<close>

fun py_get :: "pyval \<Rightarrow> string \<Rightarrow> pyval \<Rightarrow> exn + pyval" where
  "py_get (PyDict kvs) k d = Inr (case map_of kvs k of Some v \<Rightarrow> v | None \<Rightarrow> d)"
| "py_get v k d = Inl (NoAttribute (type_name v) ''get'')"

subsection \<open>PromptGenerator\<close>

text \<open>
  What the process finds around it: the value of \<open>os.getenv("ANTHROPIC_API_KEY")\<close> and the
  constructor \<open>anthropic.Anthropic(api_key=...)\<close> of the provider's client.
\<close>

record environment =
  ANTHROPIC_API_KEY :: "string option"
  anthropic_client :: "string \<Rightarrow> exn + provider"

definition PromptGenerator_init ::
  "environment \<Rightarrow> string option \<Rightarrow> PromptConfig option \<Rightarrow> exn + PromptGenerator" where
  "PromptGenerator_init env api_key' config' =
     (let key = (case api_key' of
                   Some k \<Rightarrow> if k \<noteq> [] then Some k else ANTHROPIC_API_KEY env
                 | None \<Rightarrow> ANTHROPIC_API_KEY env)
      in case key of
           None \<Rightarrow>
             Inl (Raised ''Anthropic API key is required. Set ANTHROPIC_API_KEY environment variable or pass api_key parameter.'')
         | Some k \<Rightarrow>
             if k = []
             then Inl (Raised ''Anthropic API key is required. Set ANTHROPIC_API_KEY environment variable or pass api_key parameter.'')
             else (case anthropic_client env k of
                     Inl e \<Rightarrow> Inl e
                   | Inr c \<Rightarrow>
                       Inr \<lparr> api_key = k,
                             config = (case config' of Some cfg \<Rightarrow> cfg | None \<Rightarrow> default_config),
                             client = c \<rparr>))"

text \<open>
  \<open>response.content[0].text if response.content else ""\<close>: a response without the
  attribute raises, \<open>None\<close> and the empty list are falsy, and a first block of a class
  without \<open>text\<close> raises.
\<close>

definition first_text :: "api_response \<Rightarrow> exn + string" where
  "first_text response =
     (case content response of
        Absent \<Rightarrow> Inl (NoAttribute ''Message'' ''content'')
      | IsNone \<Rightarrow> Inr []
      | Has [] \<Rightarrow> Inr []
      | Has (TextBlock t # rest) \<Rightarrow> Inr t
      | Has (OtherBlock cls # rest) \<Rightarrow> Inl (NoAttribute cls ''text''))"

text \<open>\<open>hasattr(response, 'usage')\<close> is true also when the attribute holds \<open>None\<close>.\<close>

definition hasattr_usage :: "api_response \<Rightarrow> bool" where
  "hasattr_usage response = (case usage response of Absent \<Rightarrow> False | _ \<Rightarrow> True)"

text \<open>\<open>response.usage.input_tokens\<close> and \<open>response.usage.output_tokens\<close>, by selector and name.\<close>

definition usage_counter :: "api_response \<Rightarrow> (api_usage \<Rightarrow> int attr) \<Rightarrow> string \<Rightarrow> exn + pyval" where
  "usage_counter response f name =
     (case usage response of
        Absent \<Rightarrow> Inl (NoAttribute ''Message'' ''usage'')
      | IsNone \<Rightarrow> Inl (NoAttribute ''NoneType'' name)
      | Has u \<Rightarrow>
          (case f u of
             Absent \<Rightarrow> Inl (NoAttribute ''Usage'' name)
           | IsNone \<Rightarrow> Inr PyNone
           | Has n \<Rightarrow> Inr (PyInt n)))"

text \<open>\<open>a + b\<close> on two counters, each an integer or \<open>None\<close>.\<close>

fun add_counters :: "pyval \<Rightarrow> pyval \<Rightarrow> exn + pyval" where
  "add_counters (PyInt a) (PyInt b) = Inr (PyInt (a + b))"
| "add_counters a b = Inl (UnsupportedOperand a b)"

text \<open>
  The three conditional expressions of the metadata, in the order the dict display
  evaluates them: \<open>tokens_used\<close>, \<open>input_tokens\<close>, \<open>output_tokens\<close>.
\<close>

definition tokens_used_value :: "api_response \<Rightarrow> exn + pyval" where
  "tokens_used_value response =
     (if hasattr_usage response
      then (case usage_counter response input_tokens ''input_tokens'' of
              Inl e \<Rightarrow> Inl e
            | Inr a \<Rightarrow>
                (case usage_counter response output_tokens ''output_tokens'' of
                   Inl e \<Rightarrow> Inl e
                 | Inr b \<Rightarrow> add_counters a b))
      else Inr PyNone)"

definition counter_value :: "api_response \<Rightarrow> (api_usage \<Rightarrow> int attr) \<Rightarrow> string \<Rightarrow> exn + pyval" where
  "counter_value response f name =
     (if hasattr_usage response then usage_counter response f name else Inr PyNone)"

definition metadata_counters :: "api_response \<Rightarrow> exn + pyval \<times> pyval \<times> pyval" where
  "metadata_counters response =
     (case tokens_used_value response of
        Inl e \<Rightarrow> Inl e
      | Inr n_used \<Rightarrow>
          (case counter_value response input_tokens ''input_tokens'' of
             Inl e \<Rightarrow> Inl e
           | Inr n_in \<Rightarrow>
               (case counter_value response output_tokens ''output_tokens'' of
                  Inl e \<Rightarrow> Inl e
                | Inr n_out \<Rightarrow> Inr (n_used, n_in, n_out))))"

definition success_result ::
  "PromptGenerator \<Rightarrow> pyval \<Rightarrow> string \<Rightarrow> pyval \<Rightarrow> pyval \<Rightarrow> pyval \<Rightarrow> pyval" where
  "success_result self prompt_type generated_prompt n_used n_in n_out =
     PyDict
       [(''success'', PyBool True),
        (''prompt'', PyStr generated_prompt),
        (''metadata'',
           PyDict
             [(''model'', PyStr (model (config self))),
              (''prompt_type'', prompt_type),
              (''tokens_used'', n_used),
              (''input_tokens'', n_in),
              (''output_tokens'', n_out)])]"

definition failure_result :: "python \<Rightarrow> exn \<Rightarrow> pyval" where
  "failure_result I e =
     PyDict
       [(''success'', PyBool False),
        (''error'', PyStr (exn_str I e)),
        (''prompt'', PyNone),
        (''metadata'', PyNone)]"

text \<open>
  The keyword arguments \<open>generate_prompt\<close> passes to \<open>self.client.messages.create\<close>.
\<close>

definition messages_create_args :: "PromptGenerator \<Rightarrow> string \<Rightarrow> string \<Rightarrow> api_request" where
  "messages_create_args self system' user_message =
     \<lparr> req_model = model (config self),
       req_max_tokens = max_tokens (config self),
       req_temperature = temperature (config self),
       req_system = system',
       req_messages = [[(''role'', ''user''), (''content'', user_message)]] \<rparr>"

text \<open>
  The body of the \<open>try\<close> block of \<open>generate_prompt\<close>: \<open>Inl e\<close> is the exception that leaves
  it. The second component is the list of provider calls made so far.
\<close>

definition generate_prompt_try ::
  "python \<Rightarrow> PromptGenerator \<Rightarrow> api_request list \<Rightarrow> pyval \<Rightarrow> pyval \<Rightarrow> pyval \<Rightarrow> pyval
     \<Rightarrow> (exn + pyval) \<times> api_request list" where
  "generate_prompt_try I self calls user_input context prompt_type custom_instructions =
     (case build_system_prompt I prompt_type custom_instructions of
        Inl e \<Rightarrow> (Inl e, calls)
      | Inr system_prompt' \<Rightarrow>
          (let user_message = build_user_message I user_input context;
               request = messages_create_args self system_prompt' user_message;
               calls' = calls @ [request]
           in case client self (length calls) request of
                Inl e \<Rightarrow> (Inl e, calls')
              | Inr response \<Rightarrow>
                  (case first_text response of
                     Inl e \<Rightarrow> (Inl e, calls')
                   | Inr generated_prompt \<Rightarrow>
                       (case metadata_counters response of
                          Inl e \<Rightarrow> (Inl e, calls')
                        | Inr (n_used, n_in, n_out) \<Rightarrow>
                            (Inr (success_result self prompt_type generated_prompt
                                    n_used n_in n_out),
                             calls')))))"

text \<open>\<open>try: ... except Exception as e: return {"success": False, "error": str(e), ...}\<close>\<close>

definition generate_prompt ::
  "python \<Rightarrow> PromptGenerator \<Rightarrow> api_request list \<Rightarrow> pyval \<Rightarrow> pyval \<Rightarrow> pyval \<Rightarrow> pyval
     \<Rightarrow> pyval \<times> api_request list" where
  "generate_prompt I self calls user_input context prompt_type custom_instructions =
     (case generate_prompt_try I self calls user_input context prompt_type custom_instructions of
        (Inr result, calls') \<Rightarrow> (result, calls')
      | (Inl e, calls') \<Rightarrow> (failure_result I e, calls'))"

definition analyze_image_for_prompt :: "pyval \<Rightarrow> pyval \<Rightarrow> pyval" where
  "analyze_image_for_prompt image_path analysis_type =
     PyDict
       [(''success'', PyBool False),
        (''error'', PyStr ''Image analysis not yet implemented''),
        (''prompt'', PyNone),
        (''metadata'', PyDict [(''analysis_type'', analysis_type)])]"

text \<open>
  The two variants of a result, read off a returned dict. A success has \<open>success\<close> true, a
  string under \<open>prompt\<close>, a dict under \<open>metadata\<close> and no \<open>error\<close> key; a failure has
  \<open>success\<close> false, a string under \<open>error\<close>, and \<open>None\<close> under \<open>prompt\<close> and \<open>metadata\<close>.
\<close>

fun is_str :: "pyval \<Rightarrow> bool" where
  "is_str (PyStr s) = True"
| "is_str v = False"

fun is_dict :: "pyval \<Rightarrow> bool" where
  "is_dict (PyDict kvs) = True"
| "is_dict v = False"

definition is_success :: "pyval \<Rightarrow> bool" where
  "is_success r =
     (case r of
        PyDict kvs \<Rightarrow>
          map_of kvs ''success'' = Some (PyBool True)
          \<and> (case map_of kvs ''prompt'' of Some v \<Rightarrow> is_str v | None \<Rightarrow> False)
          \<and> (case map_of kvs ''metadata'' of Some v \<Rightarrow> is_dict v | None \<Rightarrow> False)
          \<and> map_of kvs ''error'' = None
      | _ \<Rightarrow> False)"

definition is_failure :: "pyval \<Rightarrow> bool" where
  "is_failure r =
     (case r of
        PyDict kvs \<Rightarrow>
          map_of kvs ''success'' = Some (PyBool False)
          \<and> (case map_of kvs ''error'' of Some v \<Rightarrow> is_str v | None \<Rightarrow> False)
          \<and> map_of kvs ''prompt'' = Some PyNone
          \<and> map_of kvs ''metadata'' = Some PyNone
      | _ \<Rightarrow> False)"

section \<open>app.py\<close>

text \<open>
  The module-level generator: \<open>None\<close> when \<open>PromptGenerator()\<close> raised at start-up.
\<close>

definition app_generator :: "environment \<Rightarrow> PromptGenerator option" where
  "app_generator env =
     (case PromptGenerator_init env None None of
        Inl e \<Rightarrow> None
      | Inr g \<Rightarrow> Some g)"

text \<open>
  The body of the \<open>try\<close> block of the \<open>/generate-prompt\<close> handler. \<open>get_json\<close> is what
  \<open>request.get_json()\<close> does with the posted body: the decoded value, or the exception it
  raises. A response is the JSON value sent and the HTTP status.
\<close>

definition generate_prompt_api_try ::
  "python \<Rightarrow> PromptGenerator \<Rightarrow> api_request list \<Rightarrow> exn + pyval
     \<Rightarrow> (exn + pyval \<times> nat) \<times> api_request list" where
  "generate_prompt_api_try I generator calls get_json =
     (case get_json of
        Inl e \<Rightarrow> (Inl e, calls)
      | Inr data \<Rightarrow>
          (case (if \<not> truthy data then Inr True
                 else case py_in ''user_input'' data of
                        Inl e \<Rightarrow> Inl e
                      | Inr b \<Rightarrow> Inr (\<not> b)) of
             Inl e \<Rightarrow> (Inl e, calls)
           | Inr True \<Rightarrow>
               (Inr (PyDict [(''success'', PyBool False),
                             (''error'', PyStr ''Missing required field: user_input'')], 400),
                calls)
           | Inr False \<Rightarrow>
               (case py_getitem data ''user_input'' of
                  Inl e \<Rightarrow> (Inl e, calls)
                | Inr user_input \<Rightarrow>
               (case py_get data ''context'' PyNone of
                  Inl e \<Rightarrow> (Inl e, calls)
                | Inr context \<Rightarrow>
               (case py_get data ''prompt_type'' (PyStr ''general'') of
                  Inl e \<Rightarrow> (Inl e, calls)
                | Inr prompt_type \<Rightarrow>
               (case py_get data ''custom_instructions'' PyNone of
                  Inl e \<Rightarrow> (Inl e, calls)
                | Inr custom_instructions \<Rightarrow>
               (case generate_prompt I generator calls
                       user_input context prompt_type custom_instructions of
                  (result, calls') \<Rightarrow> (Inr (result, 200), calls'))))))))"

definition generate_prompt_api ::
  "python \<Rightarrow> PromptGenerator option \<Rightarrow> api_request list \<Rightarrow> exn + pyval
     \<Rightarrow> (pyval \<times> nat) \<times> api_request list" where
  "generate_prompt_api I generator calls get_json =
     (case generator of
        None \<Rightarrow>
          ((PyDict [(''success'', PyBool False),
                    (''error'', PyStr ''Prompt generator not initialized. Check your API key.'')],
            500),
           calls)
      | Some g \<Rightarrow>
          (case generate_prompt_api_try I g calls get_json of
             (Inr response, calls') \<Rightarrow> (response, calls')
           | (Inl e, calls') \<Rightarrow>
               ((PyDict [(''success'', PyBool False),
                         (''error'', PyStr (''Internal server error: '' @ exn_str I e))],
                 500),
                calls')))"

section \<open>cli.py\<close>

text \<open>
  Text typed at the terminal is modelled with characters that are code points below 256.
  \<open>strip\<close> removes the white space \<open>str.strip()\<close> removes in that range (the ASCII controls
  and the space, \<open>U+0085\<close> and \<open>U+00A0\<close>); \<open>lower\<close> maps \<open>A\<close>..\<open>Z\<close> and the upper-case
  letters \<open>U+00C0\<close>..\<open>U+00DE\<close> (the sign \<open>U+00D7\<close> apart). What the functions print is not
  modelled.
\<close>

definition py_isspace :: "char \<Rightarrow> bool" where
  "py_isspace c =
     (of_char c \<in> set [9, 10, 11, 12, 13, 28, 29, 30, 31, 32, 133, 160 :: nat])"

definition strip :: "string \<Rightarrow> string" where
  "strip s = rev (dropWhile py_isspace (rev (dropWhile py_isspace s)))"

definition lower :: "string \<Rightarrow> string" where
  "lower s =
     map (\<lambda>c. if (65 \<le> (of_char c :: nat) \<and> (of_char c :: nat) \<le> 90)
                  \<or> (192 \<le> (of_char c :: nat) \<and> (of_char c :: nat) \<le> 222
                      \<and> (of_char c :: nat) \<noteq> 215)
               then char_of (of_char c + 32 :: nat) else c) s"

text \<open>The namespace \<open>parse_args\<close> returns. \<open>argparse\<close> itself is outside the model.\<close>

record args =
  arg_input :: "string option"
  arg_type :: string
  arg_context :: "string option"
  arg_instructions :: "string option"
  arg_verbose :: bool

definition opt_str :: "string option \<Rightarrow> pyval" where
  "opt_str x = (case x of None \<Rightarrow> PyNone | Some s \<Rightarrow> PyStr s)"

text \<open>
  The lookups that the verbose branch of \<open>single_prompt_mode\<close> performs on the metadata;
  \<open>Inl e\<close> when one of them raises.
\<close>

definition show_metadata :: "pyval \<Rightarrow> exn + unit" where
  "show_metadata metadata =
     (case py_getitem metadata ''model'' of
        Inl e \<Rightarrow> Inl e
      | Inr m \<Rightarrow>
     (case py_getitem metadata ''prompt_type'' of
        Inl e \<Rightarrow> Inl e
      | Inr t \<Rightarrow>
     (case py_getitem metadata ''tokens_used'' of
        Inl e \<Rightarrow> Inl e
      | Inr n \<Rightarrow> Inr ())))"

text \<open>
  \<open>single_prompt_mode\<close> returns the exit code; \<open>Inl e\<close> is an exception that would leave
  it uncaught.
\<close>

definition single_prompt_mode ::
  "python \<Rightarrow> environment \<Rightarrow> api_request list \<Rightarrow> args \<Rightarrow> (exn + int) \<times> api_request list" where
  "single_prompt_mode I env calls a =
     (case PromptGenerator_init env None None of
        Inl e \<Rightarrow> (Inr 1, calls)
      | Inr generator \<Rightarrow>
          (case generate_prompt I generator calls
                  (opt_str (arg_input a)) (opt_str (arg_context a))
                  (PyStr (arg_type a)) (opt_str (arg_instructions a)) of
             (result, calls') \<Rightarrow>
               (case py_getitem result ''success'' of
                  Inl e \<Rightarrow> (Inl e, calls')
                | Inr ok \<Rightarrow>
                    if truthy ok
                    then (case py_getitem result ''prompt'' of
                            Inl e \<Rightarrow> (Inl e, calls')
                          | Inr p \<Rightarrow>
                              if arg_verbose a
                              then (case py_getitem result ''metadata'' of
                                      Inl e \<Rightarrow> (Inl e, calls')
                                    | Inr metadata \<Rightarrow>
                                        if truthy metadata
                                        then (case show_metadata metadata of
                                                Inl e \<Rightarrow> (Inl e, calls')
                                              | Inr u \<Rightarrow> (Inr 0, calls'))
                                        else (Inr 0, calls'))
                              else (Inr 0, calls'))
                    else (case py_getitem result ''error'' of
                            Inl e \<Rightarrow> (Inl e, calls')
                          | Inr msg \<Rightarrow> (Inr 1, calls')))))"

text \<open>
  The terminal: what each \<open>input()\<close> finds. A line is returned; \<open>Ctrl-C\<close> raises
  \<open>KeyboardInterrupt\<close>; at the end of the input \<open>input()\<close> raises \<open>EOFError\<close>, every time.
\<close>

datatype stdin_event = Line string | Interrupt

datatype read = Got string | EOFError | KeyboardInterrupt

fun input :: "stdin_event list \<Rightarrow> read \<times> stdin_event list" where
  "input [] = (EOFError, [])"
| "input (Interrupt # es) = (KeyboardInterrupt, es)"
| "input (Line s # es) = (Got s, es)"

definition prompt_types :: "(string \<times> string) list" where
  "prompt_types =
     [(''1'', ''general''), (''2'', ''creative''), (''3'', ''technical''), (''4'', ''image'')]"

text \<open>
  One pass through the body of \<open>while True\<close>. The flag says whether the loop is left
  (\<open>break\<close>); otherwise the next pass starts, also after \<open>continue\<close> and after an exception
  that \<open>except Exception\<close> caught. The result of \<open>generate_prompt\<close> is only printed.
\<close>

definition interactive_pass ::
  "python \<Rightarrow> PromptGenerator \<Rightarrow> api_request list \<Rightarrow> stdin_event list
     \<Rightarrow> bool \<times> api_request list \<times> stdin_event list" where
  "interactive_pass I generator calls events =
     (case input events of
        (KeyboardInterrupt, es1) \<Rightarrow> (True, calls, es1)
      | (EOFError, es1) \<Rightarrow> (False, calls, es1)
      | (Got l1, es1) \<Rightarrow>
          (let user_input = strip l1
           in if lower user_input \<in> set [''quit'', ''exit'', ''q''] then (True, calls, es1)
              else if user_input = [] then (False, calls, es1)
              else
          (case input es1 of
             (KeyboardInterrupt, es2) \<Rightarrow> (True, calls, es2)
           | (EOFError, es2) \<Rightarrow> (False, calls, es2)
           | (Got l2, es2) \<Rightarrow>
          (let type_choice = strip l2;
               prompt_type = (case map_of prompt_types type_choice of
                                Some t \<Rightarrow> t
                              | None \<Rightarrow> ''general'')
           in
          (case input es2 of
             (KeyboardInterrupt, es3) \<Rightarrow> (True, calls, es3)
           | (EOFError, es3) \<Rightarrow> (False, calls, es3)
           | (Got l3, es3) \<Rightarrow>
          (let context = (if strip l3 \<noteq> [] then PyStr (strip l3) else PyNone)
           in
          (case input es3 of
             (KeyboardInterrupt, es4) \<Rightarrow> (True, calls, es4)
           | (EOFError, es4) \<Rightarrow> (False, calls, es4)
           | (Got l4, es4) \<Rightarrow>
          (let custom_instructions = (if strip l4 \<noteq> [] then PyStr (strip l4) else PyNone)
           in
          (case generate_prompt I generator calls
                  (PyStr user_input) context (PyStr prompt_type) custom_instructions of
             (result, calls') \<Rightarrow> (False, calls', es4))))))))))"

text \<open>
  The loop, with fuel: \<open>None\<close> when the passes allowed did not reach a \<open>break\<close>.
\<close>

fun interactive_loop ::
  "nat \<Rightarrow> python \<Rightarrow> PromptGenerator \<Rightarrow> api_request list \<Rightarrow> stdin_event list
     \<Rightarrow> (api_request list \<times> stdin_event list) option" where
  "interactive_loop 0 I generator calls events = None"
| "interactive_loop (Suc n) I generator calls events =
     (case interactive_pass I generator calls events of
        (True, calls', es) \<Rightarrow> Some (calls', es)
      | (False, calls', es) \<Rightarrow> interactive_loop n I generator calls' es)"

definition interactive_mode ::
  "nat \<Rightarrow> python \<Rightarrow> environment \<Rightarrow> api_request list \<Rightarrow> stdin_event list
     \<Rightarrow> (api_request list \<times> stdin_event list) option" where
  "interactive_mode fuel I env calls events =
     (case PromptGenerator_init env None None of
        Inl e \<Rightarrow> Some (calls, events)
      | Inr generator \<Rightarrow> interactive_loop fuel I generator calls events)"

text \<open>
  \<open>main\<close> after \<open>parse_args\<close>; its value is the argument of \<open>sys.exit\<close>, the exit code.
\<close>

definition main ::
  "nat \<Rightarrow> python \<Rightarrow> environment \<Rightarrow> api_request list \<Rightarrow> args \<Rightarrow> stdin_event list
     \<Rightarrow> ((exn + int) \<times> api_request list) option" where
  "main fuel I env calls a events =
     (if (case ANTHROPIC_API_KEY env of None \<Rightarrow> True | Some k \<Rightarrow> k = [])
      then Some (Inr 1, calls)
      else if (case arg_input a of None \<Rightarrow> False | Some s \<Rightarrow> s \<noteq> [])
      then Some (single_prompt_mode I env calls a)
      else (case interactive_mode fuel I env calls events of
              None \<Rightarrow> None
            | Some (calls', es) \<Rightarrow> Some (Inr 0, calls')))"

section \<open>Concrete surroundings for evaluating the model\<close>

text \<open>
  An interpreter instance, a provider that gives the same answer to every call, a generator
  built on it, and an environment whose client constructor succeeds. What is evaluated
  below does not depend on the interpreter's renderings.
\<close>

definition stub_python :: python where
  "stub_python = \<lparr> str_of = (\<lambda>v. ''<object>''), message_of = (\<lambda>e. ''<error>'') \<rparr>"

definition stub_provider :: "exn + api_response \<Rightarrow> provider" where
  "stub_provider answer = (\<lambda>n request. answer)"

definition stub_generator :: "exn + api_response \<Rightarrow> PromptGenerator" where
  "stub_generator answer =
     \<lparr> api_key = ''sk-test'', config = default_config, client = stub_provider answer \<rparr>"

definition stub_environment :: "string option \<Rightarrow> exn + api_response \<Rightarrow> environment" where
  "stub_environment key answer =
     \<lparr> ANTHROPIC_API_KEY = key, anthropic_client = (\<lambda>k. Inr (stub_provider answer)) \<rparr>"

definition text_response :: "string \<Rightarrow> int \<Rightarrow> int \<Rightarrow> api_response" where
  "text_response t i out =
     \<lparr> content = Has [TextBlock t],
       usage = Has \<lparr> input_tokens = Has i, output_tokens = Has out \<rparr> \<rparr>"

definition failing_environment :: environment where
  "failing_environment =
     \<lparr> ANTHROPIC_API_KEY = Some ''sk-test'',
       anthropic_client = (\<lambda>k. Inl (Raised ''client construction failed'')) \<rparr>"

text \<open>The namespace \<open>parse_args\<close> returns when only \<open>-i\<close> is given, or nothing.\<close>

definition default_args :: "string option \<Rightarrow> args" where
  "default_args i =
     \<lparr> arg_input = i, arg_type = ''general'', arg_context = None,
       arg_instructions = None, arg_verbose = False \<rparr>"

section \<open>The template catalogue\<close>

lemma base_prompts_get_known:
  "base_prompts_get (PyStr ''general'') = Inr general_text"
  "base_prompts_get (PyStr ''creative'') = Inr creative_text"
  "base_prompts_get (PyStr ''technical'') = Inr technical_text"
  "base_prompts_get (PyStr ''image'') = Inr image_text"
  by (simp_all add: base_prompts_get_def base_prompts_def)

lemma base_prompts_get_unknown:
  assumes "k \<noteq> ''general''" "k \<noteq> ''creative''" "k \<noteq> ''technical''" "k \<noteq> ''image''"
  shows "base_prompts_get (PyStr k) = Inr general_text"
  using assms by (simp add: base_prompts_get_def base_prompts_def)

lemma base_texts_nonempty:
  "general_text \<noteq> []" "creative_text \<noteq> []" "technical_text \<noteq> []" "image_text \<noteq> []"
  by (simp_all add: general_text_def creative_text_def technical_text_def image_text_def)

lemma base_texts_distinct:
  "distinct [general_text, creative_text, technical_text, image_text]"
  by (simp add: general_text_def creative_text_def technical_text_def image_text_def)

lemma build_system_prompt_no_custom:
  "build_system_prompt I (PyStr k) PyNone = base_prompts_get (PyStr k)"
  by (cases "base_prompts_get (PyStr k)") (simp_all add: build_system_prompt_def)

text \<open>
  C3. Resolving the catalogue with no custom instructions gives, for each of the four known
  categories, a non-empty text; the four texts are pairwise distinct; and every other
  category string resolves, without an error, to exactly the text of \<open>general\<close>.
\<close>

theorem template_catalog_resolution:
  "build_system_prompt I (PyStr ''general'') PyNone = Inr general_text
   \<and> build_system_prompt I (PyStr ''creative'') PyNone = Inr creative_text
   \<and> build_system_prompt I (PyStr ''technical'') PyNone = Inr technical_text
   \<and> build_system_prompt I (PyStr ''image'') PyNone = Inr image_text
   \<and> general_text \<noteq> [] \<and> creative_text \<noteq> [] \<and> technical_text \<noteq> [] \<and> image_text \<noteq> []
   \<and> distinct [general_text, creative_text, technical_text, image_text]
   \<and> (\<forall>k. k \<notin> {''general'', ''creative'', ''technical'', ''image''} \<longrightarrow>
          build_system_prompt I (PyStr k) PyNone
            = build_system_prompt I (PyStr ''general'') PyNone)"
  by (simp add: build_system_prompt_no_custom base_prompts_get_known base_prompts_get_unknown
        base_texts_nonempty base_texts_distinct [simplified])

theorem template_catalog_resolution_witness:
  "''poetry'' \<notin> {''general'', ''creative'', ''technical'', ''image''}
   \<and> build_system_prompt stub_python (PyStr ''poetry'') PyNone = Inr general_text"
  using template_catalog_resolution [of stub_python] by simp

lemma build_system_prompt_str:
  "build_system_prompt I (PyStr k) ci =
     (case base_prompts_get (PyStr k) of
        Inl e \<Rightarrow> Inl e
      | Inr b \<Rightarrow> if truthy ci then Inr (b @ nl @ nl @ ''Additional instructions: '' @ py_str I ci)
                 else Inr b)"
  by (simp add: build_system_prompt_def)

lemma base_prompts_get_str: "\<exists>b. base_prompts_get (PyStr k) = Inr b"
  by (simp add: base_prompts_get_def split: option.split)

text \<open>
  C6. For every category string and every non-empty custom instruction text, the system text
  is the category's base text, a blank line, and \<open>Additional instructions: \<close> followed by the
  custom text verbatim, so it ends with \<open>Additional instructions: {custom_instructions}\<close>;
  with custom instructions absent or empty the system text is the base text unchanged.
\<close>

theorem custom_instructions_appended:
  "\<exists>base. base_prompts_get (PyStr k) = Inr base
     \<and> build_system_prompt I (PyStr k) PyNone = Inr base
     \<and> build_system_prompt I (PyStr k) (PyStr []) = Inr base
     \<and> (c \<noteq> [] \<longrightarrow>
          build_system_prompt I (PyStr k) (PyStr c)
            = Inr (base @ nl @ nl @ ''Additional instructions: '' @ c)
          \<and> (\<exists>t. build_system_prompt I (PyStr k) (PyStr c) = Inr t
                \<and> suffix (''Additional instructions: '' @ c) t))"
proof -
  obtain base where base: "base_prompts_get (PyStr k) = Inr base"
    using base_prompts_get_str by blast
  have "suffix (''Additional instructions: '' @ c)
          (base @ nl @ nl @ ''Additional instructions: '' @ c)"
    by (rule suffixI [of _ "base @ nl @ nl"]) simp
  with base show ?thesis
    by (simp add: build_system_prompt_str)
qed

theorem custom_instructions_appended_witness:
  "''Keep it short'' \<noteq> []
   \<and> build_system_prompt stub_python (PyStr ''image'') (PyStr ''Keep it short'')
       = Inr (image_text @ nl @ nl @ ''Additional instructions: Keep it short'')"
proof -
  have "base_prompts_get (PyStr ''image'') = Inr image_text"
    by (simp add: base_prompts_get_def base_prompts_def)
  with custom_instructions_appended [of "''image''" stub_python "''Keep it short''"]
  show ?thesis by simp
qed

section \<open>The message composer\<close>

lemma occs_skip:
  "a \<notin> set w \<Longrightarrow> occs (a # p) i (w @ s) = occs (a # p) (i + length w) s"
  by (induction w arbitrary: i) simp_all

lemma occs_Suc: "occs p (Suc i) s = map Suc (occs p i s)"
proof (induction s arbitrary: i)
  case Nil
  show ?case by simp
next
  case (Cons c s)
  show ?case using Cons.IH [of "Suc i"] by simp
qed

lemma occs_none_shift:
  assumes "occs p 0 s = []"
  shows "occs p i s = []"
proof (induction i)
  case 0
  show ?case by (rule assms)
next
  case (Suc i)
  then show ?case by (simp add: occs_Suc)
qed

lemma prefix_before_break:
  assumes "c \<notin> set p"
  shows "prefix p (u @ c # t) \<longleftrightarrow> prefix p u"
proof
  assume "prefix p (u @ c # t)"
  then have "prefix p u \<or> (\<exists>us. p = u @ us \<and> prefix us (c # t))"
    by (simp add: prefix_append)
  then show "prefix p u"
  proof
    assume "prefix p u" then show ?thesis .
  next
    assume "\<exists>us. p = u @ us \<and> prefix us (c # t)"
    then obtain us where us: "p = u @ us" "prefix us (c # t)" by blast
    show ?thesis
    proof (cases us)
      case Nil
      with us show ?thesis by simp
    next
      case (Cons a as)
      with us have "a = c" by simp
      with Cons us assms show ?thesis by simp
    qed
  qed
next
  assume "prefix p u" then show "prefix p (u @ c # t)" by simp
qed

lemma occs_append_break:
  assumes "c \<notin> set p" "p \<noteq> []"
  shows "occs p i (u @ c # t) = occs p i u @ occs p (i + length u) (c # t)"
  using assms
proof (induction u arbitrary: i)
  case Nil
  then show ?case by simp
next
  case (Cons x u)
  have "prefix p ((x # u) @ c # t) \<longleftrightarrow> prefix p (x # u)"
    using Cons.prems(1) by (rule prefix_before_break)
  moreover have "occs p (Suc i) (u @ c # t) = occs p (Suc i) u @ occs p (Suc i + length u) (c # t)"
    using Cons.IH [of "Suc i"] Cons.prems by simp
  ultimately show ?case by simp
qed

lemma occs_in_request_line:
  "occs ''Additional context'' i (request_line I (PyStr u) @ s)
     = occs ''Additional context'' (i + 46) (u @ s)"
proof -
  have len: "length ''Please create a prompt based on this request: '' = 46"
    by simp
  have notin: "CHR ''A'' \<notin> set ''Please create a prompt based on this request: ''"
    by simp
  show ?thesis
    unfolding request_line_def py_str.simps append_assoc
    by (rule occs_skip [OF notin, unfolded len])
qed

lemma occs_in_context_segment:
  "occs ''Additional context'' i (nl @ nl @ ''Additional context: '' @ c)
     = (i + 2) # occs ''Additional context'' (i + 22) c"
proof -
  have len: "length ''dditional context: '' = 19"
    by simp
  have notin: "CHR ''A'' \<notin> set ''dditional context: ''"
    by simp
  have breaks: "occs ''Additional context'' i (nl @ nl @ s)
          = occs ''Additional context'' (i + 2) s" for s
    by simp
  have marker: "occs ''Additional context'' j (''Additional context: '' @ c)
          = j # occs ''Additional context'' (Suc j) (''dditional context: '' @ c)" for j
    by simp
  have rest: "occs ''Additional context'' (Suc j) (''dditional context: '' @ c)
          = occs ''Additional context'' (Suc j + 19) c" for j
    by (rule occs_skip [OF notin, unfolded len])
  have "Suc (i + 2) + 19 = i + 22"
    by simp
  then show ?thesis
    by (simp only: breaks marker rest)
qed

text \<open>
  C5, as amended. The claim fails when the user's own text contains the words (see the
  counterexample below). For a \<open>user_input\<close> that does not contain \<open>Additional context\<close>:
  the message composed with no context, or with an empty one, does not contain it either;
  and with a non-empty context that does not contain it, the message is the request line,
  a blank line and the context segment, and \<open>Additional context\<close> occurs in it exactly once,
  two characters after the end of the request line.
\<close>

theorem user_message_additional_context:
  assumes "\<not> contains ''Additional context'' u"
  shows "\<not> contains ''Additional context'' (build_user_message I (PyStr u) PyNone)
       \<and> \<not> contains ''Additional context'' (build_user_message I (PyStr u) (PyStr ''''))
       \<and> (c \<noteq> [] \<and> \<not> contains ''Additional context'' c \<longrightarrow>
            build_user_message I (PyStr u) (PyStr c)
              = request_line I (PyStr u) @ nl @ nl @ ''Additional context: '' @ c
            \<and> occs ''Additional context'' 0 (build_user_message I (PyStr u) (PyStr c))
              = [length (request_line I (PyStr u)) + 2])"
proof -
  have u: "occs ''Additional context'' i u = []" for i
    using assms by (auto simp: contains_def intro: occs_none_shift)
  have line: "occs ''Additional context'' 0 (request_line I (PyStr u)) = []"
    using occs_in_request_line [of 0 I u "[]"] u by simp
  have len: "length (request_line I (PyStr u)) = 46 + length u"
    by (simp add: request_line_def)
  have none: "\<not> contains ''Additional context'' (build_user_message I (PyStr u) PyNone)"
    and empty: "\<not> contains ''Additional context'' (build_user_message I (PyStr u) (PyStr ''''))"
    using line by (simp_all add: build_user_message_def contains_def)
  have some: "occs ''Additional context'' 0 (build_user_message I (PyStr u) (PyStr c))
                = [length (request_line I (PyStr u)) + 2]"
    and shape: "build_user_message I (PyStr u) (PyStr c)
              = request_line I (PyStr u) @ nl @ nl @ ''Additional context: '' @ c"
    if c: "c \<noteq> []" "\<not> contains ''Additional context'' c"
  proof -
    have cn: "occs ''Additional context'' i c = []" for i
      using c(2) by (auto simp: contains_def intro: occs_none_shift)
    show shape: "build_user_message I (PyStr u) (PyStr c)
              = request_line I (PyStr u) @ nl @ nl @ ''Additional context: '' @ c"
      using c(1) by (simp add: build_user_message_def)
    have "occs ''Additional context'' 0 (request_line I (PyStr u) @ nl @ nl @ ''Additional context: '' @ c)
            = occs ''Additional context'' 46 (u @ CHR 0x0A # (nl @ ''Additional context: '' @ c))"
      using occs_in_request_line [of 0 I u "nl @ nl @ ''Additional context: '' @ c"] by simp
    also have "\<dots> = occs ''Additional context'' 46 u
                      @ occs ''Additional context'' (46 + length u) (CHR 0x0A # (nl @ ''Additional context: '' @ c))"
      by (rule occs_append_break) simp_all
    also have "\<dots> = occs ''Additional context'' (46 + length u) (nl @ nl @ ''Additional context: '' @ c)"
      using u by simp
    also have "\<dots> = [46 + length u + 2]"
      by (simp only: occs_in_context_segment cn)
    finally show "occs ''Additional context'' 0 (build_user_message I (PyStr u) (PyStr c))
                = [length (request_line I (PyStr u)) + 2]"
      by (simp only: shape len)
  qed
  from none empty some shape show ?thesis by blast
qed

theorem user_message_additional_context_witness:
  "\<not> contains ''Additional context'' ''a haiku''
   \<and> (''about autumn'' \<noteq> [] \<and> \<not> contains ''Additional context'' ''about autumn'')
   \<and> \<not> contains ''Additional context'' (build_user_message stub_python (PyStr ''a haiku'') PyNone)
   \<and> occs ''Additional context'' 0
        (build_user_message stub_python (PyStr ''a haiku'') (PyStr ''about autumn''))
       = [length (request_line stub_python (PyStr ''a haiku'')) + 2]"
proof -
  have h: "\<not> contains ''Additional context'' ''a haiku''"
    by (simp add: contains_def)
  have c: "''about autumn'' \<noteq> [] \<and> \<not> contains ''Additional context'' ''about autumn''"
    by (simp add: contains_def)
  from h c user_message_additional_context [OF h, of stub_python "''about autumn''"]
  show ?thesis by blast
qed

theorem user_message_marker_counterexample:
  "contains ''Additional context''
     (build_user_message stub_python (PyStr ''Additional context'') PyNone)"
  by (simp add: contains_def build_user_message_def request_line_def)

section \<open>generate_prompt\<close>

lemma generate_prompt_template_raises:
  assumes "build_system_prompt I prompt_type custom_instructions = Inl e"
  shows "generate_prompt I self calls user_input ctx prompt_type custom_instructions
           = (failure_result I e, calls)"
  using assms by (simp add: generate_prompt_def generate_prompt_try_def)

lemma generate_prompt_provider_raises:
  assumes "build_system_prompt I prompt_type custom_instructions = Inr sp"
    and "client self (length calls)
           (messages_create_args self sp (build_user_message I user_input ctx)) = Inl e"
  shows "generate_prompt I self calls user_input ctx prompt_type custom_instructions
           = (failure_result I e,
              calls @ [messages_create_args self sp (build_user_message I user_input ctx)])"
  using assms by (simp add: generate_prompt_def generate_prompt_try_def)

lemma generate_prompt_extraction_raises:
  assumes "build_system_prompt I prompt_type custom_instructions = Inr sp"
    and "client self (length calls)
           (messages_create_args self sp (build_user_message I user_input ctx)) = Inr response"
    and "first_text response = Inl e"
  shows "generate_prompt I self calls user_input ctx prompt_type custom_instructions
           = (failure_result I e,
              calls @ [messages_create_args self sp (build_user_message I user_input ctx)])"
  using assms by (simp add: generate_prompt_def generate_prompt_try_def)

lemma generate_prompt_usage_raises:
  assumes "build_system_prompt I prompt_type custom_instructions = Inr sp"
    and "client self (length calls)
           (messages_create_args self sp (build_user_message I user_input ctx)) = Inr response"
    and "first_text response = Inr generated_prompt"
    and "metadata_counters response = Inl e"
  shows "generate_prompt I self calls user_input ctx prompt_type custom_instructions
           = (failure_result I e,
              calls @ [messages_create_args self sp (build_user_message I user_input ctx)])"
  using assms by (simp add: generate_prompt_def generate_prompt_try_def)

lemma generate_prompt_succeeds:
  assumes "build_system_prompt I prompt_type custom_instructions = Inr sp"
    and "client self (length calls)
           (messages_create_args self sp (build_user_message I user_input ctx)) = Inr response"
    and "first_text response = Inr generated_prompt"
    and "metadata_counters response = Inr (n_used, n_in, n_out)"
  shows "generate_prompt I self calls user_input ctx prompt_type custom_instructions
           = (success_result self prompt_type generated_prompt n_used n_in n_out,
              calls @ [messages_create_args self sp (build_user_message I user_input ctx)])"
  using assms by (simp add: generate_prompt_def generate_prompt_try_def)

lemma generate_prompt_cases:
  obtains (failure) e where
      "fst (generate_prompt I self calls user_input ctx prompt_type custom_instructions)
         = failure_result I e"
  | (success) generated_prompt n_used n_in n_out where
      "fst (generate_prompt I self calls user_input ctx prompt_type custom_instructions)
         = success_result self prompt_type generated_prompt n_used n_in n_out"
proof (cases "build_system_prompt I prompt_type custom_instructions")
  case (Inl e)
  then show ?thesis
    using failure generate_prompt_template_raises by (metis fst_conv)
next
  case sp: (Inr sp)
  show ?thesis
  proof (cases "client self (length calls)
                  (messages_create_args self sp (build_user_message I user_input ctx))")
    case (Inl e)
    with sp show ?thesis
      using failure generate_prompt_provider_raises by (metis fst_conv)
  next
    case response: (Inr response)
    show ?thesis
    proof (cases "first_text response")
      case (Inl e)
      with sp response show ?thesis
        using failure generate_prompt_extraction_raises by (metis fst_conv)
    next
      case extracted: (Inr generated_prompt)
      show ?thesis
      proof (cases "metadata_counters response")
        case (Inl e)
        with sp response extracted show ?thesis
          using failure generate_prompt_usage_raises by (metis fst_conv)
      next
        case (Inr counters)
        obtain n_used n_in n_out where "counters = (n_used, n_in, n_out)"
          by (cases counters)
        with Inr sp response extracted show ?thesis
          using success generate_prompt_succeeds by (metis fst_conv)
      qed
    qed
  qed
qed

lemma is_failure_failure_result: "is_failure (failure_result I e)"
  by (simp add: is_failure_def failure_result_def)

lemma not_success_failure_result: "\<not> is_success (failure_result I e)"
  by (simp add: is_success_def failure_result_def)

lemma is_success_success_result: "is_success (success_result self t p n_used n_in n_out)"
  by (simp add: is_success_def success_result_def)

lemma not_failure_success_result: "\<not> is_failure (success_result self t p n_used n_in n_out)"
  by (simp add: is_failure_def success_result_def)

lemma failure_result_fields:
  "py_getitem (failure_result I e) ''success'' = Inr (PyBool False)"
  "py_getitem (failure_result I e) ''error'' = Inr (PyStr (exn_str I e))"
  "py_getitem (failure_result I e) ''prompt'' = Inr PyNone"
  "py_getitem (failure_result I e) ''metadata'' = Inr PyNone"
  by (simp_all add: failure_result_def)

lemma success_result_fields:
  "py_getitem (success_result self t p n_used n_in n_out) ''success'' = Inr (PyBool True)"
  "py_getitem (success_result self t p n_used n_in n_out) ''prompt'' = Inr (PyStr p)"
  "py_getitem (success_result self t p n_used n_in n_out) ''metadata'' =
     Inr (PyDict
       [(''model'', PyStr (model (config self))),
        (''prompt_type'', t),
        (''tokens_used'', n_used),
        (''input_tokens'', n_in),
        (''output_tokens'', n_out)])"
  "py_getitem (success_result self t p n_used n_in n_out) ''error'' = Inl (KeyError ''error'')"
  by (simp_all add: success_result_def)

lemma metadata_counters_absent:
  assumes "usage response = Absent"
  shows "metadata_counters response = Inr (PyNone, PyNone, PyNone)"
  using assms
  by (simp add: metadata_counters_def tokens_used_value_def counter_value_def hasattr_usage_def)

lemma metadata_counters_none:
  assumes "usage response = IsNone"
  shows "metadata_counters response = Inl (NoAttribute ''NoneType'' ''input_tokens'')"
  using assms
  by (simp add: metadata_counters_def tokens_used_value_def hasattr_usage_def usage_counter_def)

lemma metadata_counters_ints:
  assumes "usage response = Has u" and "input_tokens u = Has i" and "output_tokens u = Has out"
  shows "metadata_counters response = Inr (PyInt (i + out), PyInt i, PyInt out)"
  using assms
  by (simp add: metadata_counters_def tokens_used_value_def counter_value_def hasattr_usage_def
        usage_counter_def)

lemma text_response_parts:
  "first_text (text_response t i out) = Inr t"
  "metadata_counters (text_response t i out) = Inr (PyInt (i + out), PyInt i, PyInt out)"
  by (simp_all add: first_text_def text_response_def metadata_counters_ints)

text \<open>
  C1, as amended. Whatever exception leaves the \<open>try\<close> block, and so whichever step raises
  it (template resolution, the provider call, extracting the text or the usage counters
  from the response; composing the message raises nothing), \<open>generate_prompt\<close> returns a
  failure result: \<open>success\<close> is false and the error message is \<open>str(e)\<close> of the exception
  raised.
  The message is as empty as \<open>str(e)\<close> is: see the counterexample below. No exception
  leaves the function.
\<close>

theorem generate_prompt_recovers_exceptions:
  "(generate_prompt_try I self calls user_input ctx prompt_type custom_instructions
      = (Inl e, calls') \<longrightarrow>
      generate_prompt I self calls user_input ctx prompt_type custom_instructions
        = (failure_result I e, calls'))
   \<and> (build_system_prompt I prompt_type custom_instructions = Inl e \<longrightarrow>
      generate_prompt I self calls user_input ctx prompt_type custom_instructions
        = (failure_result I e, calls))
   \<and> (build_system_prompt I prompt_type custom_instructions = Inr sp
        \<and> client self (length calls)
             (messages_create_args self sp (build_user_message I user_input ctx)) = Inl e \<longrightarrow>
      generate_prompt I self calls user_input ctx prompt_type custom_instructions
        = (failure_result I e,
           calls @ [messages_create_args self sp (build_user_message I user_input ctx)]))
   \<and> (build_system_prompt I prompt_type custom_instructions = Inr sp
        \<and> client self (length calls)
             (messages_create_args self sp (build_user_message I user_input ctx)) = Inr response
        \<and> first_text response = Inl e \<longrightarrow>
      generate_prompt I self calls user_input ctx prompt_type custom_instructions
        = (failure_result I e,
           calls @ [messages_create_args self sp (build_user_message I user_input ctx)]))
   \<and> (build_system_prompt I prompt_type custom_instructions = Inr sp
        \<and> client self (length calls)
             (messages_create_args self sp (build_user_message I user_input ctx)) = Inr response
        \<and> first_text response = Inr generated_prompt
        \<and> metadata_counters response = Inl e \<longrightarrow>
      generate_prompt I self calls user_input ctx prompt_type custom_instructions
        = (failure_result I e,
           calls @ [messages_create_args self sp (build_user_message I user_input ctx)]))
   \<and> is_failure (failure_result I e)
   \<and> py_getitem (failure_result I e) ''success'' = Inr (PyBool False)
   \<and> py_getitem (failure_result I e) ''error'' = Inr (PyStr (exn_str I e))"
  using generate_prompt_template_raises generate_prompt_provider_raises
    generate_prompt_extraction_raises generate_prompt_usage_raises
  by (simp add: is_failure_failure_result failure_result_fields generate_prompt_def)

theorem generate_prompt_recovers_exceptions_witness:
  "build_system_prompt stub_python (PyList []) PyNone = Inl (Unhashable (PyList []))
   \<and> generate_prompt stub_python (stub_generator (Inr (text_response ''ok'' 1 2))) []
        (PyStr ''a story'') PyNone (PyList []) PyNone
       = (failure_result stub_python (Unhashable (PyList [])), [])
   \<and> build_system_prompt stub_python (PyStr ''general'') PyNone = Inr general_text
   \<and> client (stub_generator (Inl (Raised ''overloaded''))) (length ([] :: api_request list))
        (messages_create_args (stub_generator (Inl (Raised ''overloaded''))) general_text
           (build_user_message stub_python (PyStr ''a story'') PyNone))
       = Inl (Raised ''overloaded'')
   \<and> fst (generate_prompt stub_python (stub_generator (Inl (Raised ''overloaded''))) []
        (PyStr ''a story'') PyNone (PyStr ''general'') PyNone)
       = failure_result stub_python (Raised ''overloaded'')
   \<and> py_getitem (failure_result stub_python (Raised ''overloaded'')) ''error''
       = Inr (PyStr ''overloaded'')"
proof -
  have t: "build_system_prompt stub_python (PyList []) PyNone = Inl (Unhashable (PyList []))"
    by (simp add: build_system_prompt_def base_prompts_get_def)
  have sp: "build_system_prompt stub_python (PyStr ''general'') PyNone = Inr general_text"
    by (simp add: build_system_prompt_def base_prompts_get_def base_prompts_def)
  have p: "client (stub_generator (Inl (Raised ''overloaded''))) (length ([] :: api_request list))
        (messages_create_args (stub_generator (Inl (Raised ''overloaded''))) general_text
           (build_user_message stub_python (PyStr ''a story'') PyNone))
       = Inl (Raised ''overloaded'')"
    by (simp add: stub_generator_def stub_provider_def)
  from t sp p
    generate_prompt_recovers_exceptions
      [where I = stub_python and prompt_type = "PyList []" and custom_instructions = PyNone
         and e = "Unhashable (PyList [])"
         and self = "stub_generator (Inr (text_response ''ok'' 1 2))"
         and calls = "[]" and user_input = "PyStr ''a story''" and ctx = PyNone]
    generate_prompt_recovers_exceptions
      [where I = stub_python and prompt_type = "PyStr ''general''" and custom_instructions = PyNone
         and e = "Raised ''overloaded''"
         and self = "stub_generator (Inl (Raised ''overloaded''))"
         and calls = "[]" and sp = general_text
         and user_input = "PyStr ''a story''" and ctx = PyNone]
  show ?thesis by simp
qed

theorem generate_prompt_empty_error_counterexample:
  "fst (generate_prompt_try stub_python (stub_generator (Inl (Raised []))) []
          (PyStr ''a story'') PyNone (PyStr ''general'') PyNone) = Inl (Raised [])
   \<and> fst (generate_prompt stub_python (stub_generator (Inl (Raised []))) []
          (PyStr ''a story'') PyNone (PyStr ''general'') PyNone)
       = PyDict [(''success'', PyBool False), (''error'', PyStr []),
                 (''prompt'', PyNone), (''metadata'', PyNone)]"
  by (simp add: generate_prompt_def generate_prompt_try_def build_system_prompt_def
        base_prompts_get_def base_prompts_def stub_generator_def stub_provider_def
        failure_result_def)

text \<open>
  C2, as amended. The claim fails for a response whose usage attribute holds \<open>None\<close>, and
  for one whose first content block has no text: the code then returns a failure, with no
  metadata (see the counterexample below). When the provider answered
  the request with a response from which the prompt text is extracted: with a usage
  object holding integer counters the result is the success whose metadata reports
  \<open>input_tokens\<close> and \<open>output_tokens\<close> as the provider gave them and \<open>tokens_used\<close> as their
  sum (Python integers do not overflow); with no usage attribute it is the success whose
  three counters are \<open>None\<close>, not zero; with a usage attribute that holds \<open>None\<close> it is a
  failure.
\<close>

theorem usage_metadata_reported:
  assumes "build_system_prompt I prompt_type custom_instructions = Inr sp"
    and "client self (length calls)
           (messages_create_args self sp (build_user_message I user_input ctx)) = Inr response"
    and "first_text response = Inr generated_prompt"
  shows "(usage response = Has u \<and> input_tokens u = Has i \<and> output_tokens u = Has out \<longrightarrow>
            fst (generate_prompt I self calls user_input ctx prompt_type custom_instructions)
              = PyDict
                  [(''success'', PyBool True),
                   (''prompt'', PyStr generated_prompt),
                   (''metadata'',
                      PyDict
                        [(''model'', PyStr (model (config self))),
                         (''prompt_type'', prompt_type),
                         (''tokens_used'', PyInt (i + out)),
                         (''input_tokens'', PyInt i),
                         (''output_tokens'', PyInt out)])])
       \<and> (usage response = Absent \<longrightarrow>
            fst (generate_prompt I self calls user_input ctx prompt_type custom_instructions)
              = PyDict
                  [(''success'', PyBool True),
                   (''prompt'', PyStr generated_prompt),
                   (''metadata'',
                      PyDict
                        [(''model'', PyStr (model (config self))),
                         (''prompt_type'', prompt_type),
                         (''tokens_used'', PyNone),
                         (''input_tokens'', PyNone),
                         (''output_tokens'', PyNone)])])
       \<and> (usage response = IsNone \<longrightarrow>
            fst (generate_prompt I self calls user_input ctx prompt_type custom_instructions)
              = PyDict
                  [(''success'', PyBool False),
                   (''error'', PyStr (exn_str I (NoAttribute ''NoneType'' ''input_tokens''))),
                   (''prompt'', PyNone),
                   (''metadata'', PyNone)])"
proof (intro conjI impI)
  assume "usage response = Has u \<and> input_tokens u = Has i \<and> output_tokens u = Has out"
  then have "metadata_counters response = Inr (PyInt (i + out), PyInt i, PyInt out)"
    by (simp add: metadata_counters_ints)
  with assms show "fst (generate_prompt I self calls user_input ctx prompt_type custom_instructions)
              = PyDict
                  [(''success'', PyBool True),
                   (''prompt'', PyStr generated_prompt),
                   (''metadata'',
                      PyDict
                        [(''model'', PyStr (model (config self))),
                         (''prompt_type'', prompt_type),
                         (''tokens_used'', PyInt (i + out)),
                         (''input_tokens'', PyInt i),
                         (''output_tokens'', PyInt out)])]"
    by (simp add: generate_prompt_succeeds success_result_def)
next
  assume "usage response = Absent"
  then have "metadata_counters response = Inr (PyNone, PyNone, PyNone)"
    by (rule metadata_counters_absent)
  with assms show "fst (generate_prompt I self calls user_input ctx prompt_type custom_instructions)
              = PyDict
                  [(''success'', PyBool True),
                   (''prompt'', PyStr generated_prompt),
                   (''metadata'',
                      PyDict
                        [(''model'', PyStr (model (config self))),
                         (''prompt_type'', prompt_type),
                         (''tokens_used'', PyNone),
                         (''input_tokens'', PyNone),
                         (''output_tokens'', PyNone)])]"
    by (simp add: generate_prompt_succeeds success_result_def)
next
  assume "usage response = IsNone"
  then have "metadata_counters response = Inl (NoAttribute ''NoneType'' ''input_tokens'')"
    by (rule metadata_counters_none)
  with assms show "fst (generate_prompt I self calls user_input ctx prompt_type custom_instructions)
              = PyDict
                  [(''success'', PyBool False),
                   (''error'', PyStr (exn_str I (NoAttribute ''NoneType'' ''input_tokens''))),
                   (''prompt'', PyNone),
                   (''metadata'', PyNone)]"
    by (simp add: generate_prompt_usage_raises failure_result_def)
qed

theorem usage_metadata_reported_witness:
  "fst (generate_prompt stub_python
          (stub_generator (Inr (text_response ''Write a story...'' 10 20))) []
          (PyStr ''a story'') PyNone (PyStr ''creative'') PyNone)
     = PyDict
         [(''success'', PyBool True),
          (''prompt'', PyStr ''Write a story...''),
          (''metadata'',
             PyDict
               [(''model'', PyStr ''claude-3-5-sonnet-20241022''),
                (''prompt_type'', PyStr ''creative''),
                (''tokens_used'', PyInt 30),
                (''input_tokens'', PyInt 10),
                (''output_tokens'', PyInt 20)])]
   \<and> fst (generate_prompt stub_python
          (stub_generator (Inr \<lparr> content = Has [TextBlock ''Write a story...''],
                                  usage = Absent \<rparr>)) []
          (PyStr ''a story'') PyNone (PyStr ''creative'') PyNone)
     = PyDict
         [(''success'', PyBool True),
          (''prompt'', PyStr ''Write a story...''),
          (''metadata'',
             PyDict
               [(''model'', PyStr ''claude-3-5-sonnet-20241022''),
                (''prompt_type'', PyStr ''creative''),
                (''tokens_used'', PyNone),
                (''input_tokens'', PyNone),
                (''output_tokens'', PyNone)])]
   \<and> fst (generate_prompt stub_python
          (stub_generator (Inr \<lparr> content = Has [TextBlock ''Write a story...''],
                                  usage = IsNone \<rparr>)) []
          (PyStr ''a story'') PyNone (PyStr ''creative'') PyNone)
     = PyDict
         [(''success'', PyBool False),
          (''error'', PyStr ''<error>''),
          (''prompt'', PyNone),
          (''metadata'', PyNone)]"
proof -
  let ?r1 = "text_response ''Write a story...'' 10 20"
  let ?r2 = "\<lparr> content = Has [TextBlock ''Write a story...''], usage = Absent \<rparr>"
  let ?r3 = "\<lparr> content = Has [TextBlock ''Write a story...''],
               usage = (IsNone :: api_usage attr) \<rparr>"
  have sp: "build_system_prompt stub_python (PyStr ''creative'') PyNone = Inr creative_text"
    by (simp add: build_system_prompt_def base_prompts_get_def base_prompts_def)
  have c: "client (stub_generator (Inr r)) (length ([] :: api_request list))
             (messages_create_args (stub_generator (Inr r)) creative_text
                (build_user_message stub_python (PyStr ''a story'') PyNone)) = Inr r" for r
    by (simp add: stub_generator_def stub_provider_def)
  have m: "model (config (stub_generator (Inr r))) = ''claude-3-5-sonnet-20241022''" for r
    by (simp add: stub_generator_def default_config_def)
  have f1: "first_text ?r1 = Inr ''Write a story...''"
    by (simp add: first_text_def text_response_def)
  have f2: "first_text ?r2 = Inr ''Write a story...''"
    by (simp add: first_text_def)
  have f3: "first_text ?r3 = Inr ''Write a story...''"
    by (simp add: first_text_def)
  have u1: "usage ?r1 = Has \<lparr> input_tokens = Has 10, output_tokens = Has 20 \<rparr>
              \<and> input_tokens \<lparr> input_tokens = Has 10, output_tokens = Has 20 \<rparr> = Has 10
              \<and> output_tokens \<lparr> input_tokens = Has 10, output_tokens = Has 20 \<rparr> = Has 20"
    by (simp add: text_response_def)
  have u2: "usage ?r2 = Absent"
    by simp
  have u3: "usage ?r3 = IsNone"
    by simp
  have a: "fst (generate_prompt stub_python (stub_generator (Inr ?r1)) []
                  (PyStr ''a story'') PyNone (PyStr ''creative'') PyNone)
     = PyDict
         [(''success'', PyBool True),
          (''prompt'', PyStr ''Write a story...''),
          (''metadata'',
             PyDict
               [(''model'', PyStr ''claude-3-5-sonnet-20241022''),
                (''prompt_type'', PyStr ''creative''),
                (''tokens_used'', PyInt 30),
                (''input_tokens'', PyInt 10),
                (''output_tokens'', PyInt 20)])]"
    using usage_metadata_reported [OF sp c [of ?r1] f1,
            of "\<lparr> input_tokens = Has 10, output_tokens = Has 20 \<rparr>" 10 20] u1
    by (simp add: m)
  have b: "fst (generate_prompt stub_python (stub_generator (Inr ?r2)) []
                  (PyStr ''a story'') PyNone (PyStr ''creative'') PyNone)
     = PyDict
         [(''success'', PyBool True),
          (''prompt'', PyStr ''Write a story...''),
          (''metadata'',
             PyDict
               [(''model'', PyStr ''claude-3-5-sonnet-20241022''),
                (''prompt_type'', PyStr ''creative''),
                (''tokens_used'', PyNone),
                (''input_tokens'', PyNone),
                (''output_tokens'', PyNone)])]"
    using usage_metadata_reported [OF sp c [of ?r2] f2] u2
    by (simp add: m)
  have d: "fst (generate_prompt stub_python (stub_generator (Inr ?r3)) []
                  (PyStr ''a story'') PyNone (PyStr ''creative'') PyNone)
     = PyDict
         [(''success'', PyBool False),
          (''error'', PyStr ''<error>''),
          (''prompt'', PyNone),
          (''metadata'', PyNone)]"
    using usage_metadata_reported [OF sp c [of ?r3] f3] u3
    by (simp add: stub_python_def)
  from a b d show ?thesis by blast
qed

theorem usage_metadata_failure_counterexample:
  "fst (generate_prompt stub_python
          (stub_generator (Inr \<lparr> content = Has [TextBlock ''Write a story...''],
                                  usage = IsNone \<rparr>)) []
          (PyStr ''a story'') PyNone (PyStr ''creative'') PyNone)
     = PyDict
         [(''success'', PyBool False),
          (''error'', PyStr ''<error>''),
          (''prompt'', PyNone),
          (''metadata'', PyNone)]
   \<and> fst (generate_prompt stub_python
          (stub_generator
             (Inr \<lparr> content = Has [OtherBlock ''ToolUseBlock''],
                    usage = Has \<lparr> input_tokens = Has 10, output_tokens = Has 20 \<rparr> \<rparr>)) []
          (PyStr ''a story'') PyNone (PyStr ''creative'') PyNone)
     = PyDict
         [(''success'', PyBool False),
          (''error'', PyStr ''<error>''),
          (''prompt'', PyNone),
          (''metadata'', PyNone)]"
proof -
  let ?r = "\<lparr> content = Has [TextBlock ''Write a story...''],
              usage = (IsNone :: api_usage attr) \<rparr>"
  let ?t = "\<lparr> content = Has [OtherBlock ''ToolUseBlock''],
              usage = Has \<lparr> input_tokens = Has 10, output_tokens = Has 20 \<rparr> \<rparr>"
  have sp: "build_system_prompt stub_python (PyStr ''creative'') PyNone = Inr creative_text"
    by (simp add: build_system_prompt_def base_prompts_get_def base_prompts_def)
  have c: "client (stub_generator (Inr r)) (length ([] :: api_request list))
             (messages_create_args (stub_generator (Inr r)) creative_text
                (build_user_message stub_python (PyStr ''a story'') PyNone)) = Inr r" for r
    by (simp add: stub_generator_def stub_provider_def)
  have "first_text ?r = Inr ''Write a story...''"
    by (simp add: first_text_def)
  moreover have "metadata_counters ?r = Inl (NoAttribute ''NoneType'' ''input_tokens'')"
    by (simp add: metadata_counters_none)
  ultimately
  have a: "fst (generate_prompt stub_python (stub_generator (Inr ?r)) []
               (PyStr ''a story'') PyNone (PyStr ''creative'') PyNone)
          = failure_result stub_python (NoAttribute ''NoneType'' ''input_tokens'')"
    using sp c [of ?r] by (simp add: generate_prompt_usage_raises)
  have "first_text ?t = Inl (NoAttribute ''ToolUseBlock'' ''text'')"
    by (simp add: first_text_def)
  then
  have b: "fst (generate_prompt stub_python (stub_generator (Inr ?t)) []
               (PyStr ''a story'') PyNone (PyStr ''creative'') PyNone)
          = failure_result stub_python (NoAttribute ''ToolUseBlock'' ''text'')"
    using sp c [of ?t] by (simp add: generate_prompt_extraction_raises)
  show ?thesis
    unfolding a b by (simp add: failure_result_def stub_python_def)
qed

text \<open>
  C8, as amended. The claim fails for a response without a \<open>content\<close> attribute and for one
  with empty content whose usage attribute holds \<open>None\<close>: both give a failure (see the
  counterexample below). When the provider answered with a response whose content is
  \<open>None\<close> or the empty list, and whose usage attribute is missing or holds a usage object
  with integer counters, \<open>generate_prompt\<close> returns a success whose prompt is the empty
  string.
\<close>

theorem empty_content_empty_prompt:
  assumes "build_system_prompt I prompt_type custom_instructions = Inr sp"
    and "client self (length calls)
           (messages_create_args self sp (build_user_message I user_input ctx)) = Inr response"
  shows "((content response = IsNone \<or> content response = Has [])
          \<and> (usage response = Absent
               \<or> (\<exists>u i out. usage response = Has u \<and> input_tokens u = Has i
                              \<and> output_tokens u = Has out)) \<longrightarrow>
            is_success (fst (generate_prompt I self calls user_input ctx prompt_type
                               custom_instructions))
            \<and> py_getitem (fst (generate_prompt I self calls user_input ctx prompt_type
                                  custom_instructions)) ''success'' = Inr (PyBool True)
            \<and> py_getitem (fst (generate_prompt I self calls user_input ctx prompt_type
                                  custom_instructions)) ''prompt'' = Inr (PyStr []))
       \<and> (content response = Absent \<longrightarrow>
            fst (generate_prompt I self calls user_input ctx prompt_type custom_instructions)
              = failure_result I (NoAttribute ''Message'' ''content''))
       \<and> ((content response = IsNone \<or> content response = Has [])
           \<and> usage response = IsNone \<longrightarrow>
            fst (generate_prompt I self calls user_input ctx prompt_type custom_instructions)
              = failure_result I (NoAttribute ''NoneType'' ''input_tokens''))"
proof (intro conjI impI)
  assume h: "(content response = IsNone \<or> content response = Has [])
          \<and> (usage response = Absent
               \<or> (\<exists>u i out. usage response = Has u \<and> input_tokens u = Has i
                              \<and> output_tokens u = Has out))"
  then have t: "first_text response = Inr []"
    by (auto simp: first_text_def)
  from h obtain n_used n_in n_out
    where "metadata_counters response = Inr (n_used, n_in, n_out)"
    using metadata_counters_absent metadata_counters_ints by blast
  with assms t
  have r: "fst (generate_prompt I self calls user_input ctx prompt_type custom_instructions)
          = success_result self prompt_type [] n_used n_in n_out"
    by (simp add: generate_prompt_succeeds)
  show "is_success (fst (generate_prompt I self calls user_input ctx prompt_type
                           custom_instructions))"
    by (simp only: r is_success_success_result)
  show "py_getitem (fst (generate_prompt I self calls user_input ctx prompt_type
                           custom_instructions)) ''success'' = Inr (PyBool True)"
    by (simp only: r success_result_fields)
  show "py_getitem (fst (generate_prompt I self calls user_input ctx prompt_type
                           custom_instructions)) ''prompt'' = Inr (PyStr [])"
    by (simp only: r success_result_fields)
next
  assume "content response = Absent"
  then have "first_text response = Inl (NoAttribute ''Message'' ''content'')"
    by (simp add: first_text_def)
  with assms
  show "fst (generate_prompt I self calls user_input ctx prompt_type custom_instructions)
          = failure_result I (NoAttribute ''Message'' ''content'')"
    by (simp add: generate_prompt_extraction_raises)
next
  assume h: "(content response = IsNone \<or> content response = Has [])
           \<and> usage response = IsNone"
  then have "first_text response = Inr []"
    by (auto simp: first_text_def)
  moreover from h
  have "metadata_counters response = Inl (NoAttribute ''NoneType'' ''input_tokens'')"
    by (simp add: metadata_counters_none)
  ultimately
  show "fst (generate_prompt I self calls user_input ctx prompt_type custom_instructions)
          = failure_result I (NoAttribute ''NoneType'' ''input_tokens'')"
    using assms by (simp add: generate_prompt_usage_raises)
qed

theorem empty_content_empty_prompt_witness:
  "py_getitem (fst (generate_prompt stub_python
                      (stub_generator (Inr \<lparr> content = Has [], usage = Absent \<rparr>)) []
                      (PyStr ''a story'') PyNone (PyStr ''general'') PyNone))
     ''prompt'' = Inr (PyStr [])
   \<and> py_getitem (fst (generate_prompt stub_python
                      (stub_generator
                         (Inr \<lparr> content = IsNone,
                                usage = Has \<lparr> input_tokens = Has 7, output_tokens = Has 0 \<rparr> \<rparr>)) []
                      (PyStr ''a story'') PyNone (PyStr ''general'') PyNone))
     ''prompt'' = Inr (PyStr [])
   \<and> fst (generate_prompt stub_python
            (stub_generator (Inr \<lparr> content = Absent, usage = Absent \<rparr>)) []
            (PyStr ''a story'') PyNone (PyStr ''general'') PyNone)
     = failure_result stub_python (NoAttribute ''Message'' ''content'')
   \<and> fst (generate_prompt stub_python
            (stub_generator (Inr \<lparr> content = Has [], usage = IsNone \<rparr>)) []
            (PyStr ''a story'') PyNone (PyStr ''general'') PyNone)
     = failure_result stub_python (NoAttribute ''NoneType'' ''input_tokens'')"
proof -
  let ?r1 = "\<lparr> content = Has ([] :: block list), usage = (Absent :: api_usage attr) \<rparr>"
  let ?r2 = "\<lparr> content = (IsNone :: block list attr),
               usage = Has \<lparr> input_tokens = Has 7, output_tokens = Has 0 \<rparr> \<rparr>"
  let ?r3 = "\<lparr> content = (Absent :: block list attr), usage = (Absent :: api_usage attr) \<rparr>"
  let ?r4 = "\<lparr> content = Has ([] :: block list), usage = (IsNone :: api_usage attr) \<rparr>"
  have sp: "build_system_prompt stub_python (PyStr ''general'') PyNone = Inr general_text"
    by (simp add: build_system_prompt_def base_prompts_get_def base_prompts_def)
  have c: "client (stub_generator (Inr r)) (length ([] :: api_request list))
             (messages_create_args (stub_generator (Inr r)) general_text
                (build_user_message stub_python (PyStr ''a story'') PyNone)) = Inr r" for r
    by (simp add: stub_generator_def stub_provider_def)
  have h1: "(content ?r1 = IsNone \<or> content ?r1 = Has [])
          \<and> (usage ?r1 = Absent
               \<or> (\<exists>u i out. usage ?r1 = Has u \<and> input_tokens u = Has i
                              \<and> output_tokens u = Has out))"
    by simp
  have h2: "(content ?r2 = IsNone \<or> content ?r2 = Has [])
          \<and> (usage ?r2 = Absent
               \<or> (\<exists>u i out. usage ?r2 = Has u \<and> input_tokens u = Has i
                              \<and> output_tokens u = Has out))"
    by simp
  have h3: "content ?r3 = Absent"
    by simp
  have h4: "(content ?r4 = IsNone \<or> content ?r4 = Has []) \<and> usage ?r4 = IsNone"
    by simp
  from empty_content_empty_prompt [OF sp c [of ?r1]] h1
       empty_content_empty_prompt [OF sp c [of ?r2]] h2
       empty_content_empty_prompt [OF sp c [of ?r3]] h3
       empty_content_empty_prompt [OF sp c [of ?r4]] h4
  show ?thesis by blast
qed

theorem empty_content_failure_counterexample:
  "fst (generate_prompt stub_python
          (stub_generator (Inr \<lparr> content = Has [], usage = IsNone \<rparr>)) []
          (PyStr ''a story'') PyNone (PyStr ''general'') PyNone)
     = PyDict
         [(''success'', PyBool False),
          (''error'', PyStr ''<error>''),
          (''prompt'', PyNone),
          (''metadata'', PyNone)]
   \<and> fst (generate_prompt stub_python
          (stub_generator (Inr \<lparr> content = Absent, usage = Absent \<rparr>)) []
          (PyStr ''a story'') PyNone (PyStr ''general'') PyNone)
     = PyDict
         [(''success'', PyBool False),
          (''error'', PyStr ''<error>''),
          (''prompt'', PyNone),
          (''metadata'', PyNone)]"
proof -
  let ?r1 = "\<lparr> content = Has ([] :: block list), usage = (IsNone :: api_usage attr) \<rparr>"
  let ?r2 = "\<lparr> content = (Absent :: block list attr), usage = (Absent :: api_usage attr) \<rparr>"
  have sp: "build_system_prompt stub_python (PyStr ''general'') PyNone = Inr general_text"
    by (simp add: build_system_prompt_def base_prompts_get_def base_prompts_def)
  have c: "client (stub_generator (Inr r)) (length ([] :: api_request list))
             (messages_create_args (stub_generator (Inr r)) general_text
                (build_user_message stub_python (PyStr ''a story'') PyNone)) = Inr r" for r
    by (simp add: stub_generator_def stub_provider_def)
  have "first_text ?r1 = Inr []"
    by (simp add: first_text_def)
  moreover have "metadata_counters ?r1 = Inl (NoAttribute ''NoneType'' ''input_tokens'')"
    by (simp add: metadata_counters_none)
  ultimately
  have a: "fst (generate_prompt stub_python (stub_generator (Inr ?r1)) []
                  (PyStr ''a story'') PyNone (PyStr ''general'') PyNone)
             = failure_result stub_python (NoAttribute ''NoneType'' ''input_tokens'')"
    using sp c [of ?r1] by (simp add: generate_prompt_usage_raises)
  have "first_text ?r2 = Inl (NoAttribute ''Message'' ''content'')"
    by (simp add: first_text_def)
  then
  have b: "fst (generate_prompt stub_python (stub_generator (Inr ?r2)) []
                  (PyStr ''a story'') PyNone (PyStr ''general'') PyNone)
             = failure_result stub_python (NoAttribute ''Message'' ''content'')"
    using sp c [of ?r2] by (simp add: generate_prompt_extraction_raises)
  show ?thesis
    unfolding a b by (simp add: failure_result_def stub_python_def)
qed

theorem analyze_image_metadata_counterexample:
  "py_getitem (analyze_image_for_prompt (PyStr ''photo.png'') (PyStr ''detailed'')) ''success''
     = Inr (PyBool False)
   \<and> py_getitem (analyze_image_for_prompt (PyStr ''photo.png'') (PyStr ''detailed'')) ''metadata''
     = Inr (PyDict [(''analysis_type'', PyStr ''detailed'')])
   \<and> \<not> is_failure (analyze_image_for_prompt (PyStr ''photo.png'') (PyStr ''detailed''))"
  by (simp add: analyze_image_for_prompt_def is_failure_def)

text \<open>
  C7, as amended. Every result of \<open>generate_prompt\<close> is exactly one of the two variants: a
  success, with a prompt string, a metadata dict and no error, or a failure, with an error
  string and \<open>None\<close> for prompt and metadata. \<open>analyze_image_for_prompt\<close> is different: it
  returns exactly the dict with \<open>success\<close> false, its fixed error message, \<open>None\<close> for the
  prompt and a metadata dict holding the analysis type, which is neither variant and is
  the counterexample to the claim as stated.
\<close>

theorem generate_prompt_result_variants:
  "(is_success (fst (generate_prompt I self calls user_input ctx prompt_type custom_instructions))
      \<noteq> is_failure (fst (generate_prompt I self calls user_input ctx prompt_type custom_instructions)))
   \<and> (py_getitem (fst (generate_prompt I self calls user_input ctx prompt_type custom_instructions))
         ''success'' = Inr (PyBool False) \<longrightarrow>
       py_getitem (fst (generate_prompt I self calls user_input ctx prompt_type custom_instructions))
         ''metadata'' = Inr PyNone)
   \<and> analyze_image_for_prompt image_path analysis_type
       = PyDict
           [(''success'', PyBool False),
            (''error'', PyStr ''Image analysis not yet implemented''),
            (''prompt'', PyNone),
            (''metadata'', PyDict [(''analysis_type'', analysis_type)])]
   \<and> \<not> is_success (analyze_image_for_prompt image_path analysis_type)
   \<and> \<not> is_failure (analyze_image_for_prompt image_path analysis_type)"
proof -
  have "analyze_image_for_prompt image_path analysis_type
       = PyDict
           [(''success'', PyBool False),
            (''error'', PyStr ''Image analysis not yet implemented''),
            (''prompt'', PyNone),
            (''metadata'', PyDict [(''analysis_type'', analysis_type)])]
   \<and> \<not> is_success (analyze_image_for_prompt image_path analysis_type)
   \<and> \<not> is_failure (analyze_image_for_prompt image_path analysis_type)"
    by (simp add: analyze_image_for_prompt_def is_success_def is_failure_def)
  moreover
  have "(is_success (fst (generate_prompt I self calls user_input ctx prompt_type custom_instructions))
      \<noteq> is_failure (fst (generate_prompt I self calls user_input ctx prompt_type custom_instructions)))
   \<and> (py_getitem (fst (generate_prompt I self calls user_input ctx prompt_type custom_instructions))
         ''success'' = Inr (PyBool False) \<longrightarrow>
       py_getitem (fst (generate_prompt I self calls user_input ctx prompt_type custom_instructions))
         ''metadata'' = Inr PyNone)"
  proof (cases rule: generate_prompt_cases
           [of I self calls user_input ctx prompt_type custom_instructions])
    case (failure e)
    then show ?thesis
      by (simp add: is_failure_failure_result not_success_failure_result failure_result_fields)
  next
    case (success generated_prompt n_used n_in n_out)
    then show ?thesis
      by (simp add: is_success_success_result not_failure_success_result success_result_fields)
  qed
  ultimately show ?thesis by blast
qed

theorem generate_prompt_result_variants_witness:
  "py_getitem (fst (generate_prompt stub_python (stub_generator (Inl (Raised ''overloaded''))) []
                      (PyStr ''a story'') PyNone (PyStr ''general'') PyNone)) ''success''
     = Inr (PyBool False)
   \<and> py_getitem (fst (generate_prompt stub_python (stub_generator (Inl (Raised ''overloaded''))) []
                      (PyStr ''a story'') PyNone (PyStr ''general'') PyNone)) ''metadata''
     = Inr PyNone"
proof -
  have sp: "build_system_prompt stub_python (PyStr ''general'') PyNone = Inr general_text"
    by (simp add: build_system_prompt_def base_prompts_get_def base_prompts_def)
  have "client (stub_generator (Inl (Raised ''overloaded''))) (length ([] :: api_request list))
          (messages_create_args (stub_generator (Inl (Raised ''overloaded''))) general_text
             (build_user_message stub_python (PyStr ''a story'') PyNone))
        = Inl (Raised ''overloaded'')"
    by (simp add: stub_generator_def stub_provider_def)
  with sp
  have "py_getitem (fst (generate_prompt stub_python (stub_generator (Inl (Raised ''overloaded''))) []
                      (PyStr ''a story'') PyNone (PyStr ''general'') PyNone)) ''success''
          = Inr (PyBool False)"
    by (simp add: generate_prompt_provider_raises failure_result_fields)
  with generate_prompt_result_variants
         [where I = stub_python and self = "stub_generator (Inl (Raised ''overloaded''))"
            and calls = "[]" and user_input = "PyStr ''a story''" and ctx = PyNone
            and prompt_type = "PyStr ''general''" and custom_instructions = PyNone]
  show ?thesis by blast
qed

section \<open>The web handler\<close>

lemma build_system_prompt_hashable:
  assumes "hashable prompt_type"
  shows "\<exists>sp. build_system_prompt I prompt_type custom_instructions = Inr sp"
  using assms
  by (cases prompt_type)
     (simp_all add: build_system_prompt_def base_prompts_get_def split: option.split)

lemma build_system_prompt_unhashable:
  assumes "\<not> hashable prompt_type"
  shows "build_system_prompt I prompt_type custom_instructions = Inl (Unhashable prompt_type)"
  using assms by (simp add: build_system_prompt_def base_prompts_get_def)

lemma generate_prompt_calls:
  assumes "build_system_prompt I prompt_type custom_instructions = Inr sp"
  shows "snd (generate_prompt I self calls user_input ctx prompt_type custom_instructions)
           = calls @ [messages_create_args self sp (build_user_message I user_input ctx)]"
  using assms
  by (simp add: generate_prompt_def generate_prompt_try_def Let_def split: sum.split prod.split)

lemma handler_missing_key:
  assumes "map_of kvs ''user_input'' = None"
  shows "generate_prompt_api_try I g calls (Inr (PyDict kvs))
           = (Inr (PyDict [(''success'', PyBool False),
                           (''error'', PyStr ''Missing required field: user_input'')], 400),
              calls)"
  using assms by (simp add: generate_prompt_api_try_def)

lemma handler_present_key:
  assumes "map_of kvs ''user_input'' = Some user_input"
  shows "generate_prompt_api_try I g calls (Inr (PyDict kvs))
           = (case generate_prompt I g calls user_input
                     (case map_of kvs ''context'' of Some v \<Rightarrow> v | None \<Rightarrow> PyNone)
                     (case map_of kvs ''prompt_type'' of Some v \<Rightarrow> v | None \<Rightarrow> PyStr ''general'')
                     (case map_of kvs ''custom_instructions'' of Some v \<Rightarrow> v | None \<Rightarrow> PyNone) of
                (result, calls') \<Rightarrow> (Inr (result, 200), calls'))"
proof -
  from assms have "kvs \<noteq> []" by auto
  with assms show ?thesis
    by (simp add: generate_prompt_api_try_def)
qed

text \<open>
  C4, as amended. With the generator initialised, a posted JSON object without the key
  \<open>user_input\<close> (the empty object too) is answered with status 400 and the body
  \<open>{success: false, error: "Missing required field: user_input"}\<close>, and no provider call is
  made. Without a generator the handler answers 500 before it reads the body, which is the
  counterexample to the claim as stated.
\<close>

theorem missing_user_input_rejected:
  assumes "map_of kvs ''user_input'' = None"
  shows "generate_prompt_api I (Some generator) calls (Inr (PyDict kvs))
           = ((PyDict [(''success'', PyBool False),
                       (''error'', PyStr ''Missing required field: user_input'')], 400),
              calls)
       \<and> generate_prompt_api I None calls (Inr (PyDict kvs))
           = ((PyDict [(''success'', PyBool False),
                       (''error'', PyStr ''Prompt generator not initialized. Check your API key.'')],
               500),
              calls)"
  using assms by (simp add: generate_prompt_api_def handler_missing_key)

theorem missing_user_input_rejected_witness:
  "map_of ([] :: (string \<times> pyval) list) ''user_input'' = None
   \<and> generate_prompt_api stub_python (Some (stub_generator (Inr (text_response ''ok'' 1 2)))) []
        (Inr (PyDict []))
       = ((PyDict [(''success'', PyBool False),
                   (''error'', PyStr ''Missing required field: user_input'')], 400),
          [])
   \<and> map_of [(''context'', PyStr ''for children'')] ''user_input'' = None
   \<and> generate_prompt_api stub_python (Some (stub_generator (Inr (text_response ''ok'' 1 2)))) []
        (Inr (PyDict [(''context'', PyStr ''for children'')]))
       = ((PyDict [(''success'', PyBool False),
                   (''error'', PyStr ''Missing required field: user_input'')], 400),
          [])"
proof -
  have a: "map_of ([] :: (string \<times> pyval) list) ''user_input'' = None"
    by simp
  have b: "map_of [(''context'', PyStr ''for children'')] ''user_input'' = None"
    by simp
  from a b missing_user_input_rejected [OF a] missing_user_input_rejected [OF b]
  show ?thesis by blast
qed

theorem missing_user_input_counterexample:
  "generate_prompt_api stub_python None [] (Inr (PyDict []))
     = ((PyDict [(''success'', PyBool False),
                 (''error'', PyStr ''Prompt generator not initialized. Check your API key.'')],
         500),
        [])"
  by (simp add: generate_prompt_api_def)

text \<open>
  C10, as amended. With the generator initialised, a posted JSON object whose \<open>user_input\<close>
  is the empty string, and whose \<open>prompt_type\<close> (if present) is hashable, is not rejected:
  the handler answers 200 with the result of \<open>generate_prompt\<close> called with
  \<open>user_input = ""\<close>, and exactly one provider call is made, whose user message is the
  request line with nothing after it or that line followed by the context segment.
\<close>

theorem empty_user_input_not_rejected:
  assumes "map_of kvs ''user_input'' = Some (PyStr [])"
    and "hashable (case map_of kvs ''prompt_type'' of Some v \<Rightarrow> v | None \<Rightarrow> PyStr ''general'')"
  shows "\<exists>result request.
           generate_prompt_api I (Some generator) calls (Inr (PyDict kvs))
             = ((result, 200), calls @ [request])
           \<and> generate_prompt I generator calls (PyStr [])
                 (case map_of kvs ''context'' of Some v \<Rightarrow> v | None \<Rightarrow> PyNone)
                 (case map_of kvs ''prompt_type'' of Some v \<Rightarrow> v | None \<Rightarrow> PyStr ''general'')
                 (case map_of kvs ''custom_instructions'' of Some v \<Rightarrow> v | None \<Rightarrow> PyNone)
             = (result, calls @ [request])
           \<and> req_messages request
             = [[(''role'', ''user''),
                 (''content'',
                    build_user_message I (PyStr [])
                      (case map_of kvs ''context'' of Some v \<Rightarrow> v | None \<Rightarrow> PyNone))]]"
proof -
  let ?ctx = "case map_of kvs ''context'' of Some v \<Rightarrow> v | None \<Rightarrow> PyNone"
  let ?pt = "case map_of kvs ''prompt_type'' of Some v \<Rightarrow> v | None \<Rightarrow> PyStr ''general''"
  let ?ci = "case map_of kvs ''custom_instructions'' of Some v \<Rightarrow> v | None \<Rightarrow> PyNone"
  let ?gp = "generate_prompt I generator calls (PyStr []) ?ctx ?pt ?ci"
  obtain sp where sp: "build_system_prompt I ?pt ?ci = Inr sp"
    using build_system_prompt_hashable [OF assms(2)] by blast
  let ?request = "messages_create_args generator sp (build_user_message I (PyStr []) ?ctx)"
  have calls: "snd ?gp = calls @ [?request]"
    using sp by (rule generate_prompt_calls)
  then have gp: "?gp = (fst ?gp, calls @ [?request])"
    by (metis prod.collapse)
  have "generate_prompt_api I (Some generator) calls (Inr (PyDict kvs))
          = ((fst ?gp, 200), snd ?gp)"
    by (simp add: generate_prompt_api_def handler_present_key [OF assms(1)] case_prod_beta)
  then have "generate_prompt_api I (Some generator) calls (Inr (PyDict kvs))
          = ((fst ?gp, 200), calls @ [?request])"
    by (simp only: calls)
  moreover have "req_messages ?request
          = [[(''role'', ''user''), (''content'', build_user_message I (PyStr []) ?ctx)]]"
    by (simp add: messages_create_args_def)
  ultimately show ?thesis
    using gp by blast
qed

theorem empty_user_input_not_rejected_witness:
  "\<exists>result request.
     generate_prompt_api stub_python (Some (stub_generator (Inr (text_response ''ok'' 1 2)))) []
       (Inr (PyDict [(''user_input'', PyStr [])]))
       = ((result, 200), [request])
     \<and> req_messages request
       = [[(''role'', ''user''),
           (''content'', ''Please create a prompt based on this request: '')]]"
proof -
  have a: "map_of [(''user_input'', PyStr [])] ''user_input'' = Some (PyStr [])"
    by simp
  have b: "hashable (case map_of [(''user_input'', PyStr [])] ''prompt_type'' of
                       Some v \<Rightarrow> v | None \<Rightarrow> PyStr ''general'')"
    by simp
  have "build_user_message stub_python (PyStr [])
          (case map_of [(''user_input'', PyStr [])] ''context'' of Some v \<Rightarrow> v | None \<Rightarrow> PyNone)
        = ''Please create a prompt based on this request: ''"
    by (simp add: build_user_message_def request_line_def)
  with empty_user_input_not_rejected
         [OF a b, of stub_python "stub_generator (Inr (text_response ''ok'' 1 2))" "[]"]
  show ?thesis by auto
qed

theorem empty_user_input_counterexample:
  "generate_prompt_api stub_python None []
     (Inr (PyDict [(''user_input'', PyStr [])]))
     = ((PyDict [(''success'', PyBool False),
                 (''error'', PyStr ''Prompt generator not initialized. Check your API key.'')],
         500),
        [])
   \<and> snd (generate_prompt_api stub_python
             (Some (stub_generator (Inr (text_response ''ok'' 1 2)))) []
             (Inr (PyDict [(''user_input'', PyStr []), (''prompt_type'', PyList [])])))
     = []"
  by (simp add: generate_prompt_api_def generate_prompt_api_try_def generate_prompt_def
        generate_prompt_try_def build_system_prompt_def base_prompts_get_def)

section \<open>The command line\<close>

lemma show_metadata_success:
  "show_metadata
     (PyDict
       [(''model'', m), (''prompt_type'', t), (''tokens_used'', n),
        (''input_tokens'', i), (''output_tokens'', out)]) = Inr ()"
  by (simp add: show_metadata_def)

lemma single_prompt_mode_init_fails:
  assumes "PromptGenerator_init env None None = Inl e"
  shows "single_prompt_mode I env calls a = (Inr 1, calls)"
  using assms by (simp add: single_prompt_mode_def)

lemma single_prompt_mode_exit:
  assumes "PromptGenerator_init env None None = Inr g"
  shows "single_prompt_mode I env calls a =
           (Inr (if is_success
                      (fst (generate_prompt I g calls (opt_str (arg_input a))
                              (opt_str (arg_context a)) (PyStr (arg_type a))
                              (opt_str (arg_instructions a))))
                 then 0 else 1),
            snd (generate_prompt I g calls (opt_str (arg_input a))
                   (opt_str (arg_context a)) (PyStr (arg_type a))
                   (opt_str (arg_instructions a))))"
proof -
  let ?gp = "generate_prompt I g calls (opt_str (arg_input a))
               (opt_str (arg_context a)) (PyStr (arg_type a)) (opt_str (arg_instructions a))"
  have unfold: "single_prompt_mode I env calls a =
      (case py_getitem (fst ?gp) ''success'' of
         Inl e \<Rightarrow> (Inl e, snd ?gp)
       | Inr ok \<Rightarrow>
           if truthy ok
           then (case py_getitem (fst ?gp) ''prompt'' of
                   Inl e \<Rightarrow> (Inl e, snd ?gp)
                 | Inr p \<Rightarrow>
                     if arg_verbose a
                     then (case py_getitem (fst ?gp) ''metadata'' of
                             Inl e \<Rightarrow> (Inl e, snd ?gp)
                           | Inr metadata \<Rightarrow>
                               if truthy metadata
                               then (case show_metadata metadata of
                                       Inl e \<Rightarrow> (Inl e, snd ?gp)
                                     | Inr u \<Rightarrow> (Inr 0, snd ?gp))
                               else (Inr 0, snd ?gp))
                     else (Inr 0, snd ?gp))
           else (case py_getitem (fst ?gp) ''error'' of
                   Inl e \<Rightarrow> (Inl e, snd ?gp)
                 | Inr msg \<Rightarrow> (Inr 1, snd ?gp)))"
    using assms by (simp add: single_prompt_mode_def case_prod_beta)
  show ?thesis
  proof (cases rule: generate_prompt_cases
           [of I g calls "opt_str (arg_input a)" "opt_str (arg_context a)"
               "PyStr (arg_type a)" "opt_str (arg_instructions a)"])
    case (failure e)
    then show ?thesis
      unfolding unfold
      by (simp add: failure_result_fields not_success_failure_result)
  next
    case (success generated_prompt n_used n_in n_out)
    then show ?thesis
      unfolding unfold
      by (simp add: success_result_fields is_success_success_result show_metadata_success)
  qed
qed

lemma input_shorter:
  assumes "input es = (r, es')"
  shows "length es' \<le> length es" and "es \<noteq> [] \<Longrightarrow> length es' < length es"
  using assms by (induction es rule: input.induct) auto

lemma interactive_pass_eof:
  "interactive_pass I g calls [] = (False, calls, [])"
  by (simp add: interactive_pass_def)

lemma interactive_pass_shorter:
  assumes "interactive_pass I g calls es = (b, calls', es')" and "es \<noteq> []"
  shows "length es' < length es"
proof -
  obtain r1 es1 where i1: "input es = (r1, es1)" by (cases "input es")
  obtain r2 es2 where i2: "input es1 = (r2, es2)" by (cases "input es1")
  obtain r3 es3 where i3: "input es2 = (r3, es3)" by (cases "input es2")
  obtain r4 es4 where i4: "input es3 = (r4, es4)" by (cases "input es3")
  have l1: "length es1 < length es"
    using input_shorter(2) [OF i1 assms(2)] .
  have l2: "length es2 \<le> length es1" "length es3 \<le> length es2" "length es4 \<le> length es3"
    using input_shorter(1) [OF i2] input_shorter(1) [OF i3] input_shorter(1) [OF i4] by simp_all
  have "es' \<in> {es1, es2, es3, es4}"
    using assms(1) i1 i2 i3 i4
    by (auto simp: interactive_pass_def Let_def split: read.splits if_splits prod.splits)
  with l1 l2 show ?thesis by auto
qed

lemma interactive_loop_eof:
  "interactive_loop n I g calls [] = None"
  by (induction n) (simp_all add: interactive_pass_eof)

lemma interactive_loop_more_fuel:
  assumes "interactive_loop n I g calls es = Some x" and "n \<le> m"
  shows "interactive_loop m I g calls es = Some x"
  using assms
proof (induction n arbitrary: m calls es)
  case 0
  then show ?case by simp
next
  case (Suc n)
  from Suc.prems(2) obtain m' where m: "m = Suc m'" "n \<le> m'"
    by (cases m) auto
  obtain b calls' es' where p: "interactive_pass I g calls es = (b, calls', es')"
    by (cases "interactive_pass I g calls es")
  show ?case
  proof (cases b)
    case True
    with p Suc.prems(1) m show ?thesis by simp
  next
    case False
    with p Suc.prems(1) have "interactive_loop n I g calls' es' = Some x" by simp
    then have "interactive_loop m' I g calls' es' = Some x"
      using m(2) by (rule Suc.IH)
    with p False m show ?thesis by simp
  qed
qed

lemma interactive_loop_bound:
  assumes "interactive_loop n I g calls es = Some x"
  shows "interactive_loop (Suc (length es)) I g calls es = Some x"
  using assms
proof (induction n arbitrary: calls es)
  case 0
  then show ?case by simp
next
  case (Suc n)
  obtain b calls' es' where p: "interactive_pass I g calls es = (b, calls', es')"
    by (cases "interactive_pass I g calls es")
  show ?case
  proof (cases b)
    case True
    with p Suc.prems show ?thesis by simp
  next
    case False
    with p Suc.prems have rest: "interactive_loop n I g calls' es' = Some x" by simp
    have "es \<noteq> []"
    proof
      assume "es = []"
      with p have "es' = []" by (simp add: interactive_pass_eof)
      with rest show False by (simp add: interactive_loop_eof)
    qed
    with p have "Suc (length es') \<le> length es"
      using interactive_pass_shorter by fastforce
    moreover have "interactive_loop (Suc (length es')) I g calls' es' = Some x"
      using rest by (rule Suc.IH)
    ultimately have "interactive_loop (length es) I g calls' es' = Some x"
      by (rule interactive_loop_more_fuel [rotated])
    with p False show ?thesis by simp
  qed
qed

lemma interactive_mode_bound:
  assumes "interactive_mode fuel I env calls events = Some x"
  shows "interactive_mode (Suc (length events)) I env calls events = Some x"
proof (cases "PromptGenerator_init env None None")
  case (Inl e)
  with assms show ?thesis by (simp add: interactive_mode_def)
next
  case (Inr g)
  with assms have "interactive_loop fuel I g calls events = Some x"
    by (simp add: interactive_mode_def)
  then have "interactive_loop (Suc (length events)) I g calls events = Some x"
    by (rule interactive_loop_bound)
  with Inr show ?thesis by (simp only: interactive_mode_def sum.case)
qed

text \<open>
  C9, as amended. Without a credential \<open>main\<close> exits with 1 in either mode. With one, in
  single-prompt mode it exits with 1 when the generator cannot be built, and otherwise with 0
  when \<open>generate_prompt\<close> returns a success and with 1 when it returns a failure; in
  interactive mode, once the generator is built, it exits with 0 whenever the loop ends,
  whatever the generations did; if the loop ends at all it ends within one pass more than
  there are terminal events, and it does end, in the first pass, when the first thing typed
  is \<open>Ctrl-C\<close> or a quit word.
\<close>

theorem cli_exit_codes:
  "(ANTHROPIC_API_KEY env = None \<or> ANTHROPIC_API_KEY env = Some [] \<longrightarrow>
      main fuel I env calls a events = Some (Inr 1, calls))
   \<and> (ANTHROPIC_API_KEY env = Some k \<and> k \<noteq> [] \<and> arg_input a = Some s \<and> s \<noteq> [] \<longrightarrow>
        (\<forall>e. PromptGenerator_init env None None = Inl e \<longrightarrow>
               main fuel I env calls a events = Some (Inr 1, calls))
      \<and> (\<forall>g. PromptGenerator_init env None None = Inr g \<longrightarrow>
               main fuel I env calls a events
                 = Some (Inr (if is_success
                                   (fst (generate_prompt I g calls (PyStr s)
                                           (opt_str (arg_context a)) (PyStr (arg_type a))
                                           (opt_str (arg_instructions a))))
                              then 0 else 1),
                         snd (generate_prompt I g calls (PyStr s)
                                (opt_str (arg_context a)) (PyStr (arg_type a))
                                (opt_str (arg_instructions a))))))
   \<and> (ANTHROPIC_API_KEY env = Some k \<and> k \<noteq> []
        \<and> (arg_input a = None \<or> arg_input a = Some [])
        \<and> PromptGenerator_init env None None = Inr g \<longrightarrow>
        (\<forall>x calls'. main fuel I env calls a events = Some (x, calls') \<longrightarrow>
               x = Inr 0
               \<and> main (Suc (length events)) I env calls a events = Some (x, calls'))
      \<and> ((\<exists>es. events = Interrupt # es)
           \<or> (\<exists>l es. events = Line l # es
                      \<and> lower (strip l) \<in> set [''quit'', ''exit'', ''q'']) \<longrightarrow>
           main (Suc fuel) I env calls a events = Some (Inr 0, calls)))"
proof (intro conjI impI allI)
  assume "ANTHROPIC_API_KEY env = None \<or> ANTHROPIC_API_KEY env = Some []"
  then show "main fuel I env calls a events = Some (Inr 1, calls)"
    by (auto simp: main_def)
next
  fix e
  assume k: "ANTHROPIC_API_KEY env = Some k \<and> k \<noteq> [] \<and> arg_input a = Some s \<and> s \<noteq> []"
    and "PromptGenerator_init env None None = Inl e"
  then show "main fuel I env calls a events = Some (Inr 1, calls)"
    by (simp add: main_def single_prompt_mode_init_fails)
next
  fix g
  assume k: "ANTHROPIC_API_KEY env = Some k \<and> k \<noteq> [] \<and> arg_input a = Some s \<and> s \<noteq> []"
    and g: "PromptGenerator_init env None None = Inr g"
  from k have "main fuel I env calls a events = Some (single_prompt_mode I env calls a)"
    by (simp add: main_def)
  also have "single_prompt_mode I env calls a
      = (Inr (if is_success
                   (fst (generate_prompt I g calls (opt_str (arg_input a))
                           (opt_str (arg_context a)) (PyStr (arg_type a))
                           (opt_str (arg_instructions a))))
              then 0 else 1),
         snd (generate_prompt I g calls (opt_str (arg_input a))
                (opt_str (arg_context a)) (PyStr (arg_type a))
                (opt_str (arg_instructions a))))"
    using g by (rule single_prompt_mode_exit)
  also have "opt_str (arg_input a) = PyStr s"
    using k by (simp add: opt_str_def)
  finally show "main fuel I env calls a events
                 = Some (Inr (if is_success
                                   (fst (generate_prompt I g calls (PyStr s)
                                           (opt_str (arg_context a)) (PyStr (arg_type a))
                                           (opt_str (arg_instructions a))))
                              then 0 else 1),
                         snd (generate_prompt I g calls (PyStr s)
                                (opt_str (arg_context a)) (PyStr (arg_type a))
                                (opt_str (arg_instructions a))))" .
next
  fix x calls'
  assume k: "ANTHROPIC_API_KEY env = Some k \<and> k \<noteq> []
               \<and> (arg_input a = None \<or> arg_input a = Some [])
               \<and> PromptGenerator_init env None None = Inr g"
    and m: "main fuel I env calls a events = Some (x, calls')"
  from k have unfold: "main n I env calls a events
      = (case interactive_mode n I env calls events of
           None \<Rightarrow> None
         | Some (calls', es) \<Rightarrow> Some (Inr 0, calls'))" for n
    by (auto simp: main_def)
  from m obtain es where im: "interactive_mode fuel I env calls events = Some (calls', es)"
    and x: "x = Inr 0"
    unfolding unfold by (auto split: option.splits)
  from im have "interactive_mode (Suc (length events)) I env calls events = Some (calls', es)"
    by (rule interactive_mode_bound)
  then have "main (Suc (length events)) I env calls a events = Some (Inr 0, calls')"
    unfolding unfold by simp
  with x show "x = Inr 0" "main (Suc (length events)) I env calls a events = Some (x, calls')"
    by simp_all
next
  assume k: "ANTHROPIC_API_KEY env = Some k \<and> k \<noteq> []
               \<and> (arg_input a = None \<or> arg_input a = Some [])
               \<and> PromptGenerator_init env None None = Inr g"
    and q: "(\<exists>es. events = Interrupt # es)
           \<or> (\<exists>l es. events = Line l # es
                      \<and> lower (strip l) \<in> set [''quit'', ''exit'', ''q''])"
  from q obtain es where "interactive_pass I g calls events = (True, calls, es)"
    by (auto simp: interactive_pass_def)
  then have "interactive_loop (Suc fuel) I g calls events = Some (calls, es)"
    by simp
  with k have "interactive_mode (Suc fuel) I env calls events = Some (calls, es)"
    by (simp add: interactive_mode_def)
  with k show "main (Suc fuel) I env calls a events = Some (Inr 0, calls)"
    by (auto simp: main_def)
qed

lemma stub_environment_init:
  "PromptGenerator_init (stub_environment (Some ''sk-test'') answer) None None
     = Inr (stub_generator answer)"
  by (simp add: PromptGenerator_init_def stub_environment_def stub_generator_def)

lemma stub_generator_answers:
  "client (stub_generator answer) n request = answer"
  by (simp add: stub_generator_def stub_provider_def)

lemma general_system_prompt:
  "build_system_prompt I (PyStr ''general'') PyNone = Inr general_text"
  by (simp add: build_system_prompt_def base_prompts_get_def base_prompts_def)

theorem interactive_failure_exit_counterexample:
  "fst (generate_prompt stub_python (stub_generator (Inl (Raised ''overloaded''))) []
          (PyStr ''a story'') PyNone (PyStr ''general'') PyNone)
     = PyDict [(''success'', PyBool False), (''error'', PyStr ''overloaded''),
               (''prompt'', PyNone), (''metadata'', PyNone)]
   \<and> main 2 stub_python (stub_environment (Some ''sk-test'') (Inl (Raised ''overloaded''))) []
        (default_args None)
        [Line ''a story'', Line ''1'', Line [], Line [], Line ''quit'']
     = Some (Inr 0,
             [messages_create_args (stub_generator (Inl (Raised ''overloaded''))) general_text
                ''Please create a prompt based on this request: a story''])"
proof -
  have um: "build_user_message stub_python (PyStr ''a story'') PyNone
              = ''Please create a prompt based on this request: a story''"
    by (simp add: build_user_message_def request_line_def)
  have gp: "generate_prompt stub_python (stub_generator (Inl (Raised ''overloaded''))) []
          (PyStr ''a story'') PyNone (PyStr ''general'') PyNone
     = (failure_result stub_python (Raised ''overloaded''),
        [messages_create_args (stub_generator (Inl (Raised ''overloaded''))) general_text
                ''Please create a prompt based on this request: a story''])"
    using generate_prompt_provider_raises
      [OF general_system_prompt stub_generator_answers,
       of stub_python "Raised ''overloaded''" "[]"  "PyStr ''a story''" PyNone]
    by (simp add: um)
  have s: "strip ''a story'' = ''a story''" "strip ''1'' = ''1''" "strip [] = []"
    "strip ''quit'' = ''quit''"
    by (simp_all add: strip_def py_isspace_def)
  have l: "lower ''a story'' = ''a story''" "lower ''quit'' = ''quit''"
    by (simp_all add: lower_def)
  have p1: "interactive_pass stub_python (stub_generator (Inl (Raised ''overloaded''))) []
              [Line ''a story'', Line ''1'', Line [], Line [], Line ''quit'']
            = (False,
               [messages_create_args (stub_generator (Inl (Raised ''overloaded''))) general_text
                  ''Please create a prompt based on this request: a story''],
               [Line ''quit''])"
    by (simp add: interactive_pass_def s l prompt_types_def gp)
  have p2: "interactive_pass stub_python (stub_generator (Inl (Raised ''overloaded''))) calls
              [Line ''quit''] = (True, calls, [])" for calls
    by (simp add: interactive_pass_def s l)
  have "interactive_loop 2 stub_python (stub_generator (Inl (Raised ''overloaded''))) []
          [Line ''a story'', Line ''1'', Line [], Line [], Line ''quit'']
        = Some ([messages_create_args (stub_generator (Inl (Raised ''overloaded''))) general_text
                  ''Please create a prompt based on this request: a story''], [])"
    by (simp add: numeral_2_eq_2 p1 p2)
  then show ?thesis
    by (simp add: gp failure_result_def main_def interactive_mode_def stub_environment_init
          default_args_def)
       (simp add: stub_environment_def)
qed

theorem cli_exit_codes_witness:
  "main 0 stub_python (stub_environment None (Inr (text_response ''ok'' 1 2))) []
     (default_args (Some ''a story'')) [] = Some (Inr 1, [])
   \<and> main 0 stub_python failing_environment [] (default_args (Some ''a story'')) []
       = Some (Inr 1, [])
   \<and> map_option fst
        (main 0 stub_python (stub_environment (Some ''sk-test'') (Inr (text_response ''ok'' 1 2))) []
           (default_args (Some ''a story'')) []) = Some (Inr 0)
   \<and> map_option fst
        (main 0 stub_python (stub_environment (Some ''sk-test'') (Inl (Raised ''overloaded''))) []
           (default_args (Some ''a story'')) []) = Some (Inr 1)
   \<and> main 1 stub_python (stub_environment (Some ''sk-test'') (Inr (text_response ''ok'' 1 2))) []
        (default_args None) [Line ''quit''] = Some (Inr 0, [])
   \<and> main 2 stub_python (stub_environment (Some ''sk-test'') (Inr (text_response ''ok'' 1 2))) []
        (default_args None) [Line ''quit''] = Some (Inr 0, [])"
proof -
  let ?ok = "Inr (text_response ''ok'' 1 2) :: exn + api_response"
  let ?bad = "Inl (Raised ''overloaded'') :: exn + api_response"
  let ?single = "default_args (Some ''a story'')"
  have k0: "ANTHROPIC_API_KEY (stub_environment None ?ok) = None
              \<or> ANTHROPIC_API_KEY (stub_environment None ?ok) = Some []"
    by (simp add: stub_environment_def)
  have k1: "ANTHROPIC_API_KEY (stub_environment (Some ''sk-test'') answer) = Some ''sk-test''
              \<and> ''sk-test'' \<noteq> [] \<and> arg_input ?single = Some ''a story'' \<and> ''a story'' \<noteq> []"
    for answer
    by (simp add: stub_environment_def default_args_def)
  have k2: "ANTHROPIC_API_KEY failing_environment = Some ''sk-test''
              \<and> ''sk-test'' \<noteq> [] \<and> arg_input ?single = Some ''a story'' \<and> ''a story'' \<noteq> []"
    by (simp add: failing_environment_def default_args_def)
  have k3: "ANTHROPIC_API_KEY (stub_environment (Some ''sk-test'') ?ok) = Some ''sk-test''
              \<and> ''sk-test'' \<noteq> []
              \<and> (arg_input (default_args None) = None \<or> arg_input (default_args None) = Some [])
              \<and> PromptGenerator_init (stub_environment (Some ''sk-test'') ?ok) None None
                  = Inr (stub_generator ?ok)"
    by (simp add: stub_environment_init) (simp add: stub_environment_def default_args_def)
  have i2: "PromptGenerator_init failing_environment None None
              = Inl (Raised ''client construction failed'')"
    by (simp add: PromptGenerator_init_def failing_environment_def)
  have um: "build_user_message stub_python (PyStr ''a story'') (opt_str (arg_context ?single))
              = ''Please create a prompt based on this request: a story''"
    by (simp add: build_user_message_def request_line_def default_args_def opt_str_def)
  have sp: "build_system_prompt stub_python (PyStr (arg_type ?single))
              (opt_str (arg_instructions ?single)) = Inr general_text"
    using general_system_prompt [of stub_python] by (simp add: default_args_def opt_str_def)
  have ft: "first_text (text_response ''ok'' 1 2) = Inr ''ok''"
    and mc: "metadata_counters (text_response ''ok'' 1 2) = Inr (PyInt (1 + 2), PyInt 1, PyInt 2)"
    by (rule text_response_parts)+
  have good: "is_success (fst (generate_prompt stub_python (stub_generator ?ok) []
                 (PyStr ''a story'') (opt_str (arg_context ?single)) (PyStr (arg_type ?single))
                 (opt_str (arg_instructions ?single))))"
    using generate_prompt_succeeds [OF sp stub_generator_answers ft mc, of "[]" "PyStr ''a story''"]
    by (simp add: is_success_success_result)
  have bad: "\<not> is_success (fst (generate_prompt stub_python (stub_generator ?bad) []
                 (PyStr ''a story'') (opt_str (arg_context ?single)) (PyStr (arg_type ?single))
                 (opt_str (arg_instructions ?single))))"
    using generate_prompt_provider_raises [OF sp stub_generator_answers, of "Raised ''overloaded''" "[]" "PyStr ''a story''"]
    by (simp add: not_success_failure_result)
  have quit: "main 1 stub_python (stub_environment (Some ''sk-test'') ?ok) []
        (default_args None) [Line ''quit''] = Some (Inr 0, [])"
    by (simp add: main_def interactive_mode_def stub_environment_init default_args_def
          interactive_pass_def strip_def py_isspace_def lower_def)
       (simp add: stub_environment_def)
  note t = cli_exit_codes [where I = stub_python and calls = "[]"]
  have a: "main 0 stub_python (stub_environment None ?ok) [] ?single [] = Some (Inr 1, [])"
    using t [where env = "stub_environment None ?ok" and fuel = 0 and a = ?single and events = "[]"]
      k0 by blast
  have b: "main 0 stub_python failing_environment [] ?single [] = Some (Inr 1, [])"
    using t [where env = failing_environment and fuel = 0 and a = ?single and events = "[]"
               and k = "''sk-test''" and s = "''a story''"]
      k2 i2 by blast
  have c: "map_option fst (main 0 stub_python (stub_environment (Some ''sk-test'') ?ok) []
             ?single []) = Some (Inr 0)"
    using t [where env = "stub_environment (Some ''sk-test'') ?ok" and fuel = 0 and a = ?single
               and events = "[]" and k = "''sk-test''" and s = "''a story''"]
      k1 [of ?ok] stub_environment_init [of ?ok] good by simp
  have d: "map_option fst (main 0 stub_python (stub_environment (Some ''sk-test'') ?bad) []
             ?single []) = Some (Inr 1)"
    using t [where env = "stub_environment (Some ''sk-test'') ?bad" and fuel = 0 and a = ?single
               and events = "[]" and k = "''sk-test''" and s = "''a story''"]
      k1 [of ?bad] stub_environment_init [of ?bad] bad by simp
  have e: "main 2 stub_python (stub_environment (Some ''sk-test'') ?ok) []
        (default_args None) [Line ''quit''] = Some (Inr 0, [])"
    using t [where env = "stub_environment (Some ''sk-test'') ?ok" and fuel = 1
               and a = "default_args None" and events = "[Line ''quit'']" and k = "''sk-test''"
               and g = "stub_generator ?ok"]
      k3 quit by (simp add: numeral_2_eq_2)
  from a b c d quit e show ?thesis by blast
qed

end
